theory Spec2Isabelle
  imports Complex_Main "HOL-Library.Option_ord"
begin

section \<open>Conventions\<close>

text \<open>
  Floating-point numbers of the source (numpy and torch scalars) are read as real
  numbers: rounding and the order of evaluation are set aside. The special values are
  not. A division whose divisor is zero returns \<open>inf\<close> or \<open>nan\<close> in numpy and torch and
  raises nothing, so the model marks such a result (\<open>Degenerate\<close>, or \<open>None\<close> in a
  \<open>real option\<close>) instead of using the value HOL gives to \<open>x / 0\<close>; where such a number
  is compared or sorted it is a \<open>real option\<close>, \<open>None\<close> standing for \<open>inf\<close> or \<open>nan\<close>, and
  the order of \<open>Option_ord\<close> on the finite values \<open>Some x\<close> is that of the reals. The
  projection of the pinhole camera is modelled a second time on float64 with all the
  special values and the overflow, for what depends on them. An array is a list (a matrix
  a list of rows); every raise of the source is an \<open>Inl\<close> of the result.

  The errors: \<open>AssertionError\<close> (a failed \<open>assert\<close>; the shape error of the
  specification), \<open>IndexError\<close>, \<open>UnpackError\<close> (the \<open>ValueError\<close> of an unpacking
  of the wrong length), \<open>RuntimeError\<close> (torch, on shapes that do not broadcast),
  \<open>ZeroPointsError\<close> (the \<open>ValueError\<close> that \<open>triangulate\<close> raises with the best error
  and the threshold; the no-solution error of the specification) and
  \<open>PreconditionError\<close> (the precondition error of the specification). The best error
  starts as \<open>np.inf\<close>, so it is a real number or infinity.
\<close>

datatype bound = Finite real | Infinity

datatype error =
    AssertionError
  | IndexError
  | UnpackError
  | RuntimeError
  | PreconditionError
  | ZeroPointsError bound real

datatype projection = Degenerate | Pixel "real list"

section \<open>wormlab3d/toolkit/pinhole\_camera.py\<close>


definition matmul :: "real list list \<Rightarrow> real list \<Rightarrow> real list" where
  "matmul m v = map (\<lambda>row. sum_list (map2 (*) row v)) m"

definition vec_add :: "real list \<Rightarrow> real list \<Rightarrow> real list" where
  "vec_add u v = map2 (+) u v"

record PinholeCamera =
  pose :: "real list list"
  matrix :: "real list list"
  distortion :: "real list option"
  rotation :: "real list list"
  translation :: "real list"
  shift :: "(real \<times> real) option"


text \<open>
  The distortion step of \<open>project_to_2d\<close>, as the source writes it (Horner form of the
  radial polynomial, the tangential term \<open>2 p1 y\<close> inside the bracket of \<open>x\<close>).
\<close>

definition distort_xy ::
  "real \<Rightarrow> real \<Rightarrow> real \<Rightarrow> real \<Rightarrow> real \<Rightarrow> real \<Rightarrow> real \<Rightarrow> real \<times> real" where
  "distort_xy k1 k2 p1 p2 k3 x y =
     (let r2 = x * x + y * y
      in (x * (1 + r2 * (k1 + r2 * (k2 + k3 * r2)) + 2 * p1 * y) + p2 * (r2 + 2 * x * x),
          y * (1 + r2 * (k1 + r2 * (k2 + k3 * r2)) + 2 * p2 * x) + p1 * (r2 + 2 * y * y)))"

text \<open>
  \<open>project_to_2d\<close>. The result is \<open>Degenerate\<close> when the depth \<open>x[2]\<close> is zero, or when a
  shift is divided by a zero focal length: the source then returns an array holding
  \<open>inf\<close> or \<open>nan\<close>. The unpacking of the distortion vector raises when it has not five
  entries (the constructor excludes this).
\<close>

definition project_to_2d :: "PinholeCamera \<Rightarrow> real list \<Rightarrow> bool \<Rightarrow> error + projection" where
  "project_to_2d self image_point distort =
     (if length image_point \<noteq> 3 then Inl AssertionError
      else
        let xv = vec_add (matmul (rotation self) image_point) (translation self);
            x = xv ! 0 / xv ! 2;
            y = xv ! 1 / xv ! 2;
            fx = matrix self ! 0 ! 0;
            fy = matrix self ! 1 ! 1;
            (x, y) = (case shift self of
                        None \<Rightarrow> (x, y)
                      | Some s \<Rightarrow> (x + fst s / fx, y + snd s / fy));
            degenerate = (xv ! 2 = 0 \<or> (shift self \<noteq> None \<and> (fx = 0 \<or> fy = 0)));
            cx = matrix self ! 0 ! 2;
            cy = matrix self ! 1 ! 2;
            out = (\<lambda>(x, y). if degenerate then Degenerate
                             else Pixel [fx * x + cx, fy * y + cy])
        in case (if distort then distortion self else None) of
             None \<Rightarrow> Inr (out (x, y))
           | Some [k1, k2, p1, p2, k3] \<Rightarrow> Inr (out (distort_xy k1 k2 p1 p2 k3 x y))
           | Some _ \<Rightarrow> Inl UnpackError)"





subsection \<open>The projection on floating-point numbers\<close>

text \<open>
  A float64 of numpy: a finite number, or one of the special values \<open>inf\<close>, \<open>-inf\<close> and
  \<open>nan\<close>. The rounding of the finite results is set aside, the overflow is not: an
  operation whose exact result reaches \<open>2^1024 - 2^970\<close>, the first number that rounds
  to no finite float64, gives an infinity. A zero is read as \<open>+0.0\<close>.
\<close>

datatype float64 = Num real | PInf | NInf | NaN

definition overflow_threshold :: real where
  "overflow_threshold = 2 ^ 1024 - 2 ^ 970"

definition rounded :: "real \<Rightarrow> float64" where
  "rounded r =
     (if overflow_threshold \<le> r then PInf
      else if r \<le> - overflow_threshold then NInf
      else Num r)"

definition plus_sign :: "float64 \<Rightarrow> bool" where
  "plus_sign a = (case a of Num r \<Rightarrow> 0 \<le> r | PInf \<Rightarrow> True | _ \<Rightarrow> False)"

text \<open>
  The sum, the product and the quotient of two float64, with the special values as
  IEEE 754 has them: \<open>nan\<close> is absorbing, \<open>inf - inf\<close>, \<open>0 * inf\<close>, \<open>0 / 0\<close> and
  \<open>inf / inf\<close> are \<open>nan\<close>, a number other than zero divided by zero is an infinity (numpy
  warns and raises nothing), a finite number divided by an infinity is zero.
\<close>

fun fadd :: "float64 \<Rightarrow> float64 \<Rightarrow> float64" where
  "fadd (Num r) (Num s) = rounded (r + s)"
| "fadd NaN b = NaN"
| "fadd a NaN = NaN"
| "fadd PInf NInf = NaN"
| "fadd NInf PInf = NaN"
| "fadd PInf b = PInf"
| "fadd a PInf = PInf"
| "fadd NInf b = NInf"
| "fadd a NInf = NInf"

fun fmul :: "float64 \<Rightarrow> float64 \<Rightarrow> float64" where
  "fmul (Num r) (Num s) = rounded (r * s)"
| "fmul NaN b = NaN"
| "fmul a NaN = NaN"
| "fmul (Num r) b = (if r = 0 then NaN else if (0 < r) = plus_sign b then PInf else NInf)"
| "fmul a (Num s) = (if s = 0 then NaN else if plus_sign a = (0 < s) then PInf else NInf)"
| "fmul a b = (if plus_sign a = plus_sign b then PInf else NInf)"

fun fdiv :: "float64 \<Rightarrow> float64 \<Rightarrow> float64" where
  "fdiv (Num r) (Num s) =
     (if s = 0 then (if r = 0 then NaN else if 0 < r then PInf else NInf)
      else rounded (r / s))"
| "fdiv NaN b = NaN"
| "fdiv a NaN = NaN"
| "fdiv (Num r) b = Num 0"
| "fdiv a (Num s) = (if plus_sign a = (0 \<le> s) then PInf else NInf)"
| "fdiv a b = NaN"

text \<open>One entry of \<open>np.matmul\<close> of a matrix and a vector: the products, summed in order.\<close>

definition fdot :: "float64 list \<Rightarrow> float64 list \<Rightarrow> float64" where
  "fdot row v = foldl fadd (Num 0) (map2 fmul row v)"

text \<open>
  The distortion step of \<open>project_to_2d\<close>, operation by operation as the source
  parenthesises it: \<open>2. * p1 * y\<close> is \<open>(2. * p1) * y\<close>, \<open>2. * x * x\<close> is \<open>(2. * x) * x\<close>,
  and the bracket is \<open>(1 + r2 * (...)) + 2. * p1 * y\<close>.
\<close>

definition distort_xy_float ::
  "float64 \<Rightarrow> float64 \<Rightarrow> float64 \<Rightarrow> float64 \<Rightarrow> float64 \<Rightarrow> float64 \<Rightarrow> float64
   \<Rightarrow> float64 \<times> float64" where
  "distort_xy_float k1 k2 p1 p2 k3 x y =
     (let r2 = fadd (fmul x x) (fmul y y);
          radial = fadd (Num 1) (fmul r2 (fadd k1 (fmul r2 (fadd k2 (fmul k3 r2)))))
      in (fadd (fmul x (fadd radial (fmul (fmul (Num 2) p1) y)))
               (fmul p2 (fadd r2 (fmul (fmul (Num 2) x) x))),
          fadd (fmul y (fadd radial (fmul (fmul (Num 2) p2) x)))
               (fmul p1 (fadd r2 (fmul (fmul (Num 2) y) y)))))"

text \<open>
  \<open>project_to_2d\<close> on float64, for a camera and a point that hold finite numbers: the
  same statements as above, each operation with its special values. The result is the
  array of the two numbers returned, which may be \<open>inf\<close> or \<open>nan\<close>.
\<close>

definition project_to_2d_float ::
  "PinholeCamera \<Rightarrow> real list \<Rightarrow> bool \<Rightarrow> error + float64 list" where
  "project_to_2d_float self image_point distort =
     (if length image_point \<noteq> 3 then Inl AssertionError
      else
        let xv = map2 fadd
                   (map (\<lambda>row. fdot (map Num row) (map Num image_point)) (rotation self))
                   (map Num (translation self));
            x = fdiv (xv ! 0) (xv ! 2);
            y = fdiv (xv ! 1) (xv ! 2);
            fx = Num (matrix self ! 0 ! 0);
            fy = Num (matrix self ! 1 ! 1);
            (x, y) = (case shift self of
                        None \<Rightarrow> (x, y)
                      | Some s \<Rightarrow> (fadd x (fdiv (Num (fst s)) fx),
                                   fadd y (fdiv (Num (snd s)) fy)));
            cx = Num (matrix self ! 0 ! 2);
            cy = Num (matrix self ! 1 ! 2);
            out = (\<lambda>(x, y). [fadd (fmul fx x) cx, fadd (fmul fy y) cy])
        in case (if distort then distortion self else None) of
             None \<Rightarrow> Inr (out (x, y))
           | Some [k1, k2, p1, p2, k3] \<Rightarrow>
               Inr (out (distort_xy_float (Num k1) (Num k2) (Num p1) (Num p2) (Num k3) x y))
           | Some _ \<Rightarrow> Inl UnpackError)"

section \<open>wormlab3d/toolkit/triangulate.py\<close>

text \<open>
  Modelled from the spec: \<open>CAMERA_IDXS\<close>, a constant of the package's \<open>__init__\<close>, which
  is not among the sources; the objective sums over the cameras 0, 1 and 2 of the triplet.
\<close>

definition CAMERA_IDXS :: "nat list" where
  "CAMERA_IDXS = [0, 1, 2]"

text \<open>
  Modelled from the spec: the \<open>Cameras\<close> document, whose class is not among the
  sources; \<open>triangulate\<close> reads from it the triplet of camera models and the
  reprojection error.
\<close>

record Cameras =
  get_camera_model_triplet :: "PinholeCamera list"
  reprojection_error :: "real option"

text \<open>
  Modelled from the spec: the \<open>ObjectPoint\<close> document, whose class is not among the
  sources, with the fields that \<open>triangulate\<close> assigns.
\<close>

record ObjectPoint =
  cameras :: Cameras
  point_3d :: "real list"
  error :: "real option"
  source_point_idxs :: "nat list"
  reprojected_points_2d :: "projection list"

text \<open>
  \<open>scipy.optimize.minimize\<close> is a parameter of the model: given the objective, the start
  point and the tolerance it returns the point \<open>res.x\<close> and the value \<open>res.fun\<close>. The
  objective's value is \<open>None\<close> where a projection is degenerate, and so is \<open>res.fun\<close>
  when it is \<open>nan\<close> or \<open>inf\<close> (the objective is a square root, it is never \<open>-inf\<close>);
  the \<open>error\<close> of an \<open>ObjectPoint\<close> is this value.
\<close>

record OptimizeResult =
  res_x :: "real list"
  res_fun :: "real option"

type_synonym objective = "real list \<Rightarrow> error + real option"
type_synonym minimizer = "objective \<Rightarrow> real list \<Rightarrow> real option \<Rightarrow> OptimizeResult"

definition getitem :: "'a list \<Rightarrow> nat \<Rightarrow> error + 'a" where
  "getitem xs i = (if i < length xs then Inr (xs ! i) else Inl IndexError)"

definition linalg_norm :: "real list \<Rightarrow> real" where
  "linalg_norm v = sqrt (sum_list (map (\<lambda>a. a * a) v))"

definition vec_sub :: "real list \<Rightarrow> real list \<Rightarrow> real list" where
  "vec_sub u v = map2 (-) u v"

text \<open>One summand of the objective: the squared distance in the view of camera \<open>c\<close>.\<close>

definition f_term :: "PinholeCamera list \<Rightarrow> real list \<Rightarrow> real list list \<Rightarrow> nat
                      \<Rightarrow> error + real option" where
  "f_term cams_model x pts c =
     (case getitem cams_model c of
        Inl e \<Rightarrow> Inl e
      | Inr cam \<Rightarrow>
          (case project_to_2d cam x True of
             Inl e \<Rightarrow> Inl e
           | Inr Degenerate \<Rightarrow> Inr None
           | Inr (Pixel uv) \<Rightarrow>
               (case getitem pts c of
                  Inl e \<Rightarrow> Inl e
                | Inr pt \<Rightarrow> Inr (Some ((linalg_norm (vec_sub uv pt))\<^sup>2)))))"

fun sum_terms :: "(error + real option) list \<Rightarrow> error + real option" where
  "sum_terms [] = Inr (Some 0)"
| "sum_terms (t # ts) =
     (case t of
        Inl e \<Rightarrow> Inl e
      | Inr v \<Rightarrow>
          (case sum_terms ts of
             Inl e \<Rightarrow> Inl e
           | Inr w \<Rightarrow> Inr (case (v, w) of (Some a, Some b) \<Rightarrow> Some (a + b) | _ \<Rightarrow> None)))"

definition f :: "PinholeCamera list \<Rightarrow> real list list \<Rightarrow> objective" where
  "f cams_model pts x =
     (case sum_terms (map (f_term cams_model x pts) CAMERA_IDXS) of
        Inl e \<Rightarrow> Inl e
      | Inr None \<Rightarrow> Inr None
      | Inr (Some s) \<Rightarrow> Inr (Some (sqrt s)))"

text \<open>\<open>itertools.product\<close> of a list of lists: the last position varies fastest.\<close>

fun itertools_product :: "'a list list \<Rightarrow> 'a list list" where
  "itertools_product [] = [[]]"
| "itertools_product (xs # xss) =
     concat (map (\<lambda>x. map (\<lambda>c. x # c) (itertools_product xss)) xs)"

text \<open>
  Python's \<open>min(best_err, e)\<close>, where \<open>best_err\<close> starts as \<open>np.inf\<close>: it is \<open>e\<close> when
  \<open>e < best_err\<close> and \<open>best_err\<close> otherwise, so an error that is \<open>nan\<close> or \<open>inf\<close>
  leaves the best error as it is.
\<close>

definition py_min :: "bound \<Rightarrow> real option \<Rightarrow> bound" where
  "py_min best e =
     (case e of
        None \<Rightarrow> best
      | Some v \<Rightarrow>
          (case best of
             Infinity \<Rightarrow> Finite v
           | Finite b \<Rightarrow> if v < b then Finite v else Finite b))"

text \<open>
  The comparison \<open>r.error < matching_threshold\<close> of the filter: false for an error that
  is \<open>nan\<close> or \<open>inf\<close>.
\<close>

definition below :: "real \<Rightarrow> real option \<Rightarrow> bool" where
  "below matching_threshold e =
     (case e of None \<Rightarrow> False | Some v \<Rightarrow> v < matching_threshold)"

text \<open>
  The call of \<open>minimize\<close>. It evaluates the objective at the start point first, and
  what the objective raises there leaves the call. (What the objective raises depends on
  the cameras only, as long as the point has three coordinates: it raises at the start
  point or nowhere.)
\<close>

definition call_minimize ::
  "minimizer \<Rightarrow> objective \<Rightarrow> real list \<Rightarrow> real option \<Rightarrow> error + OptimizeResult" where
  "call_minimize minimize obj x0 tol =
     (case obj x0 of Inl e \<Rightarrow> Inl e | Inr v \<Rightarrow> Inr (minimize obj x0 tol))"

text \<open>
  The body of the loop over the combinations: the three chosen points (\<open>points_2d\<close>), one
  minimization from \<open>x0\<close>, one \<open>ObjectPoint\<close> built from its result (\<open>object_point\<close>,
  \<open>solve_one\<close>).
\<close>

definition points_2d :: "real list list list \<Rightarrow> nat list \<Rightarrow> real list list" where
  "points_2d image_points point_key_combination =
     [image_points ! 0 ! (point_key_combination ! 0),
      image_points ! 1 ! (point_key_combination ! 1),
      image_points ! 2 ! (point_key_combination ! 2)]"

definition object_point :: "Cameras \<Rightarrow> OptimizeResult \<Rightarrow> nat list \<Rightarrow> ObjectPoint" where
  "object_point cams res point_key_combination =
     \<lparr>cameras = cams, point_3d = res_x res, error = res_fun res,
      source_point_idxs = point_key_combination,
      reprojected_points_2d = []\<rparr>"

definition solve_one ::
  "minimizer \<Rightarrow> Cameras \<Rightarrow> real list list list \<Rightarrow> real list \<Rightarrow> nat list
   \<Rightarrow> error + ObjectPoint" where
  "solve_one minimize cams image_points x0 point_key_combination =
     (case call_minimize minimize
             (f (get_camera_model_triplet cams) (points_2d image_points point_key_combination))
             x0 (reprojection_error cams) of
        Inl e \<Rightarrow> Inl e
      | Inr res \<Rightarrow> Inr (object_point cams res point_key_combination))"

text \<open>
  The loop: each point is appended to \<open>res_3d\<close> and the best error updated; a raise
  ends the loop.
\<close>

fun solve_loop ::
  "minimizer \<Rightarrow> Cameras \<Rightarrow> real list list list \<Rightarrow> real list
   \<Rightarrow> ObjectPoint list \<times> bound \<Rightarrow> nat list list \<Rightarrow> error + ObjectPoint list \<times> bound" where
  "solve_loop minimize cams image_points x0 (res_3d, best_err) [] = Inr (res_3d, best_err)"
| "solve_loop minimize cams image_points x0 (res_3d, best_err)
       (point_key_combination # rest) =
     (case solve_one minimize cams image_points x0 point_key_combination of
        Inl e \<Rightarrow> Inl e
      | Inr obj_point \<Rightarrow>
          solve_loop minimize cams image_points x0
            (res_3d @ [obj_point], py_min best_err (error obj_point)) rest)"

definition point_key_combinations :: "real list list list \<Rightarrow> nat list list" where
  "point_key_combinations image_points =
     itertools_product (map (\<lambda>pts. [0..<length pts]) image_points)"

definition solve_combinations ::
  "minimizer \<Rightarrow> Cameras \<Rightarrow> real list list list \<Rightarrow> real list
   \<Rightarrow> error + ObjectPoint list \<times> bound" where
  "solve_combinations minimize cams image_points x0 =
     solve_loop minimize cams image_points x0 ([], Infinity)
       (point_key_combinations image_points)"

text \<open>The re-projection of the surviving points; the first raise ends it.\<close>

fun collect :: "(error + 'a) list \<Rightarrow> error + 'a list" where
  "collect [] = Inr []"
| "collect (t # ts) =
     (case t of
        Inl e \<Rightarrow> Inl e
      | Inr v \<Rightarrow> (case collect ts of Inl e \<Rightarrow> Inl e | Inr vs \<Rightarrow> Inr (v # vs)))"

definition reproject :: "PinholeCamera list \<Rightarrow> ObjectPoint \<Rightarrow> error + ObjectPoint" where
  "reproject cams_model r =
     (case collect (map (\<lambda>c. case getitem cams_model c of
                               Inl e \<Rightarrow> Inl e
                             | Inr cam \<Rightarrow> project_to_2d cam (point_3d r) True)
                        CAMERA_IDXS) of
        Inl e \<Rightarrow> Inl e
      | Inr ps \<Rightarrow> Inr (r\<lparr>reprojected_points_2d := ps\<rparr>))"

text \<open>The start point: the argument, or \<open>(1, 1, 500)\<close> when it is \<open>None\<close>.\<close>

definition initial_guess :: "real list option \<Rightarrow> real list" where
  "initial_guess x0 = (case x0 of None \<Rightarrow> [1, 1, 500] | Some v \<Rightarrow> v)"

definition triangulate ::
  "minimizer \<Rightarrow> real list list list \<Rightarrow> Cameras \<Rightarrow> real list option \<Rightarrow> real
   \<Rightarrow> error + ObjectPoint list" where
  "triangulate minimize image_points cams x0 matching_threshold =
     (if length image_points \<noteq> 3 then Inl AssertionError
      else if \<not> list_all (list_all (\<lambda>pts. length pts = 2)) image_points
        then Inl AssertionError
      else if (case x0 of None \<Rightarrow> False | Some v \<Rightarrow> length v \<noteq> 3) then Inl AssertionError
      else
        let cams_model = get_camera_model_triplet cams;
            x0 = initial_guess x0
        in case solve_combinations minimize cams image_points x0 of
             Inl e \<Rightarrow> Inl e
           | Inr (res_3d, best_err) \<Rightarrow>
               let res_3d = filter (\<lambda>r. below matching_threshold (error r)) res_3d;
                   res_3d = sort_key error res_3d
               in if length res_3d = 0
                  then Inl (ZeroPointsError best_err matching_threshold)
                  else collect (map (reproject cams_model) res_3d))"

text \<open>
  A triplet as the \<open>Cameras\<close> document gives it: three cameras, each with no distortion
  vector or one of five coefficients, as the constructor leaves them.
\<close>

definition calibrated :: "Cameras \<Rightarrow> bool" where
  "calibrated cams =
     (length (get_camera_model_triplet cams) = 3
      \<and> list_all (\<lambda>cam. case distortion cam of None \<Rightarrow> True | Some d \<Rightarrow> length d = 5)
            (get_camera_model_triplet cams))"

text \<open>
  The candidates of the loop when no call raises: for each combination, the point built
  from the result of its minimization.
\<close>

definition all_candidates ::
  "minimizer \<Rightarrow> Cameras \<Rightarrow> real list list list \<Rightarrow> real list \<Rightarrow> ObjectPoint list" where
  "all_candidates minimize cams image_points x0 =
     map (\<lambda>c. object_point cams
                 (minimize (f (get_camera_model_triplet cams) (points_2d image_points c))
                    x0 (reprojection_error cams)) c)
       (point_key_combinations image_points)"

text \<open>
  The filter and the sort as the specification words them: a candidate is filtered out
  when its error exceeds the threshold, and the others are sorted by error. (A candidate
  whose error is not a finite number is left out as well.)
\<close>

definition spec_survivors :: "real \<Rightarrow> ObjectPoint list \<Rightarrow> ObjectPoint list" where
  "spec_survivors matching_threshold res_3d =
     sort_key error
       (filter (\<lambda>r. case error r of None \<Rightarrow> False | Some v \<Rightarrow> \<not> matching_threshold < v)
          res_3d)"

text \<open>
  The finite errors of a list of candidates, those that \<open>min\<close> compares.
\<close>

definition finite_errors :: "ObjectPoint list \<Rightarrow> real list" where
  "finite_errors res_3d = List.map_filter error res_3d"

text \<open>A minimizer that stops at its start point, for the evaluation of examples.\<close>

definition stay :: minimizer where
  "stay obj x0 tol =
     \<lparr>res_x = x0, res_fun = (case obj x0 of Inl e \<Rightarrow> None | Inr v \<Rightarrow> v)\<rparr>"

section \<open>Example data\<close>

definition lens_camera :: PinholeCamera where
  "lens_camera =
     \<lparr>pose = [[1, 0, 0, 0], [0, 1, 0, 0], [0, 0, 1, 1], [0, 0, 0, 1]],
      matrix = [[2, 0, 1], [0, 2, 1], [0, 0, 1]],
      distortion = Some [1, 0, 0, 0, 0],
      rotation = [[1, 0, 0], [0, 1, 0], [0, 0, 1]],
      translation = [0, 0, 1],
      shift = Some (2, 4)\<rparr>"

definition flat_camera :: PinholeCamera where
  "flat_camera = lens_camera\<lparr>distortion := Some [0, 0, 0, 0, 0]\<rparr>"

definition example_camera :: PinholeCamera where
  "example_camera =
     \<lparr>pose = [[1, 0, 0, 0], [0, 1, 0, 0], [0, 0, 1, 0], [0, 0, 0, 1]],
      matrix = [[1, 0, 0], [0, 1, 0], [0, 0, 1]],
      distortion = None,
      rotation = [[1, 0, 0], [0, 1, 0], [0, 0, 1]],
      translation = [0, 0, 0],
      shift = None\<rparr>"

definition unit_camera :: PinholeCamera where
  "unit_camera = example_camera\<lparr>distortion := Some [0, 0, 0, 0, 0]\<rparr>"

definition example_cameras :: Cameras where
  "example_cameras =
     \<lparr>get_camera_model_triplet = [example_camera, example_camera, example_camera],
      reprojection_error = None\<rparr>"

definition boundary_points :: "real list list list" where
  "boundary_points = [[[0, 0], [1, 0]], [[0, 0]], [[0, 0]]]"

definition empty_view_points :: "real list list list" where
  "empty_view_points = [[], [[0, 0]], [[0, 0]]]"

definition six_points :: "real list list list" where
  "six_points = [[[0, 0], [3, 0]], [[0, 0], [0, 4], [4, 0]], [[0, 0]]]"


section \<open>wormlab3d/midlines3d/dynamic\_cameras.py\<close>

text \<open>
  A torch tensor is its shape and its entries, read by a list of indices. The vectorised
  operations of \<open>forward\<close> are written entry by entry, under the names of the source's
  variables; a normalised coordinate and an entry of the output are \<open>None\<close> where a
  division by zero made them \<open>inf\<close> or \<open>nan\<close>.
\<close>

record tensor =
  shape :: "nat list"
  elem :: "nat list \<Rightarrow> real"

definition dim :: "tensor \<Rightarrow> nat" where
  "dim t = length (shape t)"

definition zeros :: "nat list \<Rightarrow> tensor" where
  "zeros sh = \<lparr>shape = sh, elem = (\<lambda>idx. 0)\<rparr>"

definition N_CAM_COEFFICIENTS :: nat where
  "N_CAM_COEFFICIENTS = 22"

record DynamicCameras =
  distort :: bool
  fx :: tensor
  fy :: tensor
  cx :: tensor
  cy :: tensor
  rotation :: tensor
  translation :: tensor
  distortion :: tensor
  shifts :: tensor

definition DynamicCameras_init :: "bool \<Rightarrow> DynamicCameras" where
  "DynamicCameras_init distort0 =
     \<lparr>distort = distort0,
      fx = zeros [0, 3, 1], fy = zeros [0, 3, 1], cx = zeros [0, 3, 1], cy = zeros [0, 3, 1],
      rotation = zeros [0, 3, 3, 3], translation = zeros [0, 3, 3],
      distortion = zeros [0, 3, 5], shifts = zeros [0, 3]\<rparr>"

text \<open>\<open>coefficients[:, :, n].unsqueeze(dim=2)\<close>: one column, kept as a last axis of size 1.\<close>

definition column :: "tensor \<Rightarrow> nat \<Rightarrow> tensor" where
  "column coefficients n =
     \<lparr>shape = [shape coefficients ! 0, 3, 1],
      elem = (\<lambda>idx. case idx of [b, c, z] \<Rightarrow> elem coefficients [b, c, n] | _ \<Rightarrow> 0)\<rparr>"

definition extract_coefficients :: "DynamicCameras \<Rightarrow> tensor \<Rightarrow> error + DynamicCameras" where
  "extract_coefficients self coefficients =
     (if dim coefficients \<noteq> 3 then Inl AssertionError
      else if shape coefficients ! 1 \<noteq> 3 then Inl AssertionError
      else if shape coefficients ! 2 \<noteq> N_CAM_COEFFICIENTS then Inl AssertionError
      else
        let bs = shape coefficients ! 0
        in Inr (self\<lparr>
             fx := column coefficients 0,
             fy := column coefficients 1,
             cx := column coefficients 2,
             cy := column coefficients 3,
             rotation :=
               \<lparr>shape = [bs, 3, 3, 3],
                elem = (\<lambda>idx. case idx of
                        [b, c, i, j] \<Rightarrow> elem coefficients [b, c, 4 + (3 * i + j)] | _ \<Rightarrow> 0)\<rparr>,
             translation :=
               \<lparr>shape = [bs, 3, 3],
                elem = (\<lambda>idx. case idx of
                        [b, c, i] \<Rightarrow> elem coefficients [b, c, 13 + i] | _ \<Rightarrow> 0)\<rparr>,
             distortion :=
               \<lparr>shape = [bs, 3, 5],
                elem = (\<lambda>idx. case idx of
                        [b, c, i] \<Rightarrow> elem coefficients [b, c, 16 + i] | _ \<Rightarrow> 0)\<rparr>,
             shifts :=
               \<lparr>shape = [bs, 3],
                elem = (\<lambda>idx. case idx of
                        [b, c] \<Rightarrow> elem coefficients [b, c, 21] | _ \<Rightarrow> 0)\<rparr>\<rparr>))"

text \<open>
  Broadcasting along the batch axis: a buffer whose batch size is 1 is read at batch
  index 0 for every item of the batch of points.
\<close>

definition bcast :: "tensor \<Rightarrow> nat \<Rightarrow> nat" where
  "bcast t b = (if shape t ! 0 = 1 then 0 else b)"

text \<open>\<open>xyz\<close>: the einsum \<open>bcij,bpj->bcpi\<close> of rotation and points, plus the translation.\<close>

definition xyz :: "DynamicCameras \<Rightarrow> tensor \<Rightarrow> nat \<Rightarrow> nat \<Rightarrow> nat \<Rightarrow> nat \<Rightarrow> real" where
  "xyz self points b c p i =
     (\<Sum>j\<leftarrow>[0..<3]. elem (rotation self) [bcast (rotation self) b, c, i, j] * elem points [b, p, j])
     + elem (translation self) [bcast (translation self) b, c, i]"

definition setitem :: "tensor \<Rightarrow> (nat list \<Rightarrow> bool) \<Rightarrow> (nat list \<Rightarrow> real) \<Rightarrow> tensor" where
  "setitem t sel v = t\<lparr>elem := (\<lambda>idx. if sel idx then v idx else elem t idx)\<rparr>"

text \<open>
  The local tensor \<open>shifts\<close> of \<open>forward\<close>: zeros of shape \<open>(batch, 3, 2)\<close>, then the three
  assignments \<open>shifts[:, 0, 0] = self.shifts[:, 0]\<close>, \<open>shifts[:, 1, 1] = -self.shifts[:, 1]\<close>
  and \<open>shifts[:, 2, 1] = self.shifts[:, 2]\<close>.
\<close>

definition local_shifts :: "DynamicCameras \<Rightarrow> tensor \<Rightarrow> tensor" where
  "local_shifts self points =
     (let s = zeros [shape points ! 0, 3, 2];
          s = setitem s (\<lambda>idx. case idx of [b, c, a] \<Rightarrow> c = 0 \<and> a = 0 | _ \<Rightarrow> False)
                (\<lambda>idx. elem (shifts self) [bcast (shifts self) (hd idx), 0]);
          s = setitem s (\<lambda>idx. case idx of [b, c, a] \<Rightarrow> c = 1 \<and> a = 1 | _ \<Rightarrow> False)
                (\<lambda>idx. - elem (shifts self) [bcast (shifts self) (hd idx), 1]);
          s = setitem s (\<lambda>idx. case idx of [b, c, a] \<Rightarrow> c = 2 \<and> a = 1 | _ \<Rightarrow> False)
                (\<lambda>idx. elem (shifts self) [bcast (shifts self) (hd idx), 2])
      in s)"

text \<open>
  A division of torch: where the divisor is zero the quotient is \<open>inf\<close> or \<open>nan\<close>,
  here \<open>None\<close>. An operation on two such numbers: \<open>inf\<close> and \<open>nan\<close> stay \<open>inf\<close> or
  \<open>nan\<close> through the sums and products of \<open>forward\<close>.
\<close>

definition float_div :: "real \<Rightarrow> real \<Rightarrow> real option" where
  "float_div a b = (if b = 0 then None else Some (a / b))"

definition float_op :: "(real \<Rightarrow> real \<Rightarrow> real) \<Rightarrow> real option \<Rightarrow> real option \<Rightarrow> real option" where
  "float_op h a b = (case (a, b) of (Some x, Some y) \<Rightarrow> Some (h x y) | _ \<Rightarrow> None)"

text \<open>The normalised coordinates after the perspective division, then after the shifts.\<close>

definition x_projected :: "DynamicCameras \<Rightarrow> tensor \<Rightarrow> nat \<Rightarrow> nat \<Rightarrow> nat \<Rightarrow> real option" where
  "x_projected self points b c p = float_div (xyz self points b c p 0) (xyz self points b c p 2)"

definition y_projected :: "DynamicCameras \<Rightarrow> tensor \<Rightarrow> nat \<Rightarrow> nat \<Rightarrow> nat \<Rightarrow> real option" where
  "y_projected self points b c p = float_div (xyz self points b c p 1) (xyz self points b c p 2)"

definition x_shifted :: "DynamicCameras \<Rightarrow> tensor \<Rightarrow> nat \<Rightarrow> nat \<Rightarrow> nat \<Rightarrow> real option" where
  "x_shifted self points b c p =
     float_op (+) (x_projected self points b c p)
       (float_div (elem (local_shifts self points) [b, c, 0])
          (elem (fx self) [bcast (fx self) b, c, 0]))"

definition y_shifted :: "DynamicCameras \<Rightarrow> tensor \<Rightarrow> nat \<Rightarrow> nat \<Rightarrow> nat \<Rightarrow> real option" where
  "y_shifted self points b c p =
     float_op (+) (y_projected self points b c p)
       (float_div (elem (local_shifts self points) [b, c, 1])
          (elem (fy self) [bcast (fy self) b, c, 0]))"

text \<open>The distortion step, on the coefficients of camera \<open>c\<close> of batch item \<open>b\<close>.\<close>

definition distorted :: "DynamicCameras \<Rightarrow> nat \<Rightarrow> nat \<Rightarrow> real \<Rightarrow> real \<Rightarrow> real \<times> real" where
  "distorted self b c x y =
     (let k = (\<lambda>i. elem (distortion self) [bcast (distortion self) b, c, i]);
          k1 = k 0; k2 = k 1; p1 = k 2; p2 = k 3; k3 = k 4;
          xy = x * y;
          r2 = x\<^sup>2 + y\<^sup>2;
          r4 = r2 * r2;
          r6 = r4 * r2;
          k_term = 1 + k1 * r2 + k2 * r4 + k3 * r6
      in (x * k_term + 2 * p1 * xy + p2 * (r2 + 2 * x\<^sup>2),
          y * k_term + p1 * (r2 + 2 * y\<^sup>2) + 2 * p2 * xy))"

text \<open>
  One entry of the output, \<open>u\<close> at the last index 0 and \<open>v\<close> at the last index 1. The
  distortion mixes the two coordinates (\<open>r2\<close> enters every term), so that behind it both
  are \<open>inf\<close> or \<open>nan\<close> as soon as one of them was.
\<close>

definition out_entry :: "DynamicCameras \<Rightarrow> tensor \<Rightarrow> nat \<Rightarrow> nat \<Rightarrow> nat \<Rightarrow> nat \<Rightarrow> real option" where
  "out_entry self points b c p i =
     (let x = x_shifted self points b c p;
          y = y_shifted self points b c p;
          (x, y) = (if distort self
                    then (float_op (\<lambda>x y. fst (distorted self b c x y)) x y,
                          float_op (\<lambda>x y. snd (distorted self b c x y)) x y)
                    else (x, y));
          u = map_option (\<lambda>x. elem (fx self) [bcast (fx self) b, c, 0] * x
                                + elem (cx self) [bcast (cx self) b, c, 0]) x;
          v = map_option (\<lambda>y. elem (fy self) [bcast (fy self) b, c, 0] * y
                                + elem (cy self) [bcast (cy self) b, c, 0]) y
      in if i = 0 then u else v)"

record out_tensor =
  out_shape :: "nat list"
  out_elem :: "nat list \<Rightarrow> real option"

text \<open>
  \<open>forward\<close>: the two assertions on the points, the unpacking of the coefficients into
  the buffers, and the projection. The einsum and the assignments to the local shifts
  raise a \<open>RuntimeError\<close> when the batch sizes differ and that of the coefficients is
  not 1. The result is the module with its buffers updated, and the output.
\<close>

definition forward ::
  "DynamicCameras \<Rightarrow> tensor \<Rightarrow> tensor \<Rightarrow> error + DynamicCameras \<times> out_tensor" where
  "forward self coefficients points =
     (if dim points \<noteq> 3 then Inl AssertionError
      else if shape points ! 2 \<noteq> 3 then Inl AssertionError
      else
        (case extract_coefficients self coefficients of
           Inl e \<Rightarrow> Inl e
         | Inr self' \<Rightarrow>
             if shape coefficients ! 0 \<noteq> shape points ! 0 \<and> shape coefficients ! 0 \<noteq> 1
             then Inl RuntimeError
             else Inr (self',
                    \<lparr>out_shape = [shape points ! 0, 3, shape points ! 1, 2],
                     out_elem = (\<lambda>idx. case idx of
                                 [b, c, p, i] \<Rightarrow> out_entry self' points b c p i
                               | _ \<Rightarrow> None)\<rparr>)))"

section \<open>Example tensors\<close>

definition example_coefficients :: tensor where
  "example_coefficients =
     \<lparr>shape = [1, 3, 22],
      elem = (\<lambda>idx. case idx of
                [b, c, n] \<Rightarrow>
                  if n = 0 then 2 else if n = 1 then 3
                  else if n = 4 \<or> n = 8 \<or> n = 12 \<or> n = 15 then 1
                  else if n = 21 then 6 else 0
              | _ \<Rightarrow> 0)\<rparr>"

definition example_points :: tensor where
  "example_points =
     \<lparr>shape = [1, 1, 3],
      elem = (\<lambda>idx. case idx of [b, p, j] \<Rightarrow> if j = 2 then 1 else 0 | _ \<Rightarrow> 0)\<rparr>"

definition example_module :: DynamicCameras where
  "example_module = projr (extract_coefficients (DynamicCameras_init True) example_coefficients)"

definition short_coefficients :: tensor where
  "short_coefficients = example_coefficients\<lparr>shape := [1, 3, 21]\<rparr>"


section \<open>The tumble-run approximation (wormlab3d/particles/tumble\_run.py)\<close>

text \<open>
  \<open>get_approximate\<close> and \<open>find_approximation\<close> are called by
  \<open>scripts/particles/tumble_run.py\<close>, but the module that defines them is not among the
  sources. This section follows sections 3 and 4.4 of the specification. The turn angles and the
  frame basis at the vertices, which the specification takes from an external frame
  computation, are left out of the approximation.
\<close>

text \<open>
  Modelled from the spec: the candidate peaks of \<open>get_approximate\<close>, the local peaks of
  the curvature signal (an interior sample higher than both of its neighbours).
\<close>

definition local_peaks :: "real list \<Rightarrow> nat list" where
  "local_peaks k =
     filter (\<lambda>i. k ! (i - 1) < k ! i \<and> k ! (i + 1) < k ! i) [1..<length k - 1]"

text \<open>Modelled from the spec: the number of steps between two indices.\<close>

definition steps_apart :: "nat \<Rightarrow> nat \<Rightarrow> nat" where
  "steps_apart i j = (if i \<le> j then j - i else i - j)"

text \<open>
  Modelled from the spec: the greedy selection of \<open>get_approximate\<close>; a peak is accepted
  only if it is at least \<open>distance\<close> steps from all previously accepted peaks.
\<close>

fun accept_peaks :: "nat \<Rightarrow> nat list \<Rightarrow> nat list \<Rightarrow> nat list" where
  "accept_peaks distance accepted [] = accepted"
| "accept_peaks distance accepted (i # candidates) =
     accept_peaks distance
       (if list_all (\<lambda>j. distance \<le> steps_apart i j) accepted then accepted @ [i]
        else accepted)
       candidates"

text \<open>
  Modelled from the spec: the peak finding of \<open>get_approximate\<close>; the candidates are
  taken by decreasing height, the accepted indices are returned in increasing order.
\<close>

definition find_peaks :: "real list \<Rightarrow> nat \<Rightarrow> nat list" where
  "find_peaks k distance =
     sort (accept_peaks distance [] (rev (sort_key (\<lambda>i. k ! i) (local_peaks k))))"

text \<open>
  Modelled from the spec: the result of \<open>get_approximate\<close>, without the turn angles and
  the frame basis at the vertices.
\<close>

record Approximation =
  X_approx :: "real list list"
  vertices :: "real list list"
  tumble_idxs :: "nat list"
  run_durations :: "nat list"
  run_speeds :: "real option list"

text \<open>
  Modelled from the spec: the pairs of consecutive entries of a list of indices (the
  consecutive vertices, the consecutive tumbles).
\<close>

fun consecutive :: "'a list \<Rightarrow> ('a \<times> 'a) list" where
  "consecutive (a # b # xs) = (a, b) # consecutive (b # xs)"
| "consecutive xs = []"

text \<open>
  Modelled from the spec: the indices of the vertices of \<open>get_approximate\<close>, the tumble
  indices bracketed by the first and the last index of the trajectory.
\<close>

definition vertex_idxs :: "nat \<Rightarrow> nat list \<Rightarrow> nat list" where
  "vertex_idxs T tumbles = 0 # tumbles @ [T - 1]"

text \<open>
  Modelled from the spec: the linear interpolation of \<open>get_approximate\<close> between the
  vertices at the indices \<open>a\<close> and \<open>b\<close>, at the time step \<open>t\<close>.
\<close>

definition interpolate :: "real list list \<Rightarrow> nat \<Rightarrow> nat \<Rightarrow> nat \<Rightarrow> real list" where
  "interpolate X a b t =
     map2 (\<lambda>p q. p + (real (t - a) / real (b - a)) * (q - p)) (X ! a) (X ! b)"

text \<open>
  Modelled from the spec: the approximation that \<open>get_approximate\<close> derives from the
  tumble indices. The vertices are the first point, the positions at the tumble indices
  and the last point; the reconstruction interpolates between consecutive vertices. The
  run durations are the steps between consecutive tumbles (section 3 of the
  specification; the caller \<open>scripts/particles/tumble_run.py\<close> plots them, and the run
  speeds, against one time less than there are tumbles), the run speeds the distance
  between the two tumbles by the duration (\<open>None\<close> for a run of no step). An empty
  trajectory, which has no first and last point, has the empty approximation.
\<close>

definition approximate :: "real list list \<Rightarrow> nat list \<Rightarrow> Approximation" where
  "approximate X tumbles =
     (if X = [] then
        \<lparr>X_approx = [], vertices = [], tumble_idxs = [], run_durations = [], run_speeds = []\<rparr>
      else
        let segments = consecutive (vertex_idxs (length X) tumbles);
            runs = consecutive tumbles
        in \<lparr>X_approx = concat (map (\<lambda>(a, b). map (interpolate X a b) [a..<b]) segments)
                          @ [X ! (length X - 1)],
            vertices = map (\<lambda>i. X ! i) (vertex_idxs (length X) tumbles),
            tumble_idxs = tumbles,
            run_durations = map (\<lambda>(a, b). b - a) runs,
            run_speeds = map (\<lambda>(a, b). if b - a = 0 then None
                                else Some (linalg_norm (vec_sub (X ! b) (X ! a)) / real (b - a)))
                           runs\<rparr>)"

text \<open>
  Modelled from the spec: \<open>get_approximate\<close>, the fixed-distance mode. Mismatched lengths
  of the trajectory and the curvature signal and a non-positive distance fail fast.
\<close>

definition get_approximate :: "real list list \<Rightarrow> real list \<Rightarrow> int \<Rightarrow> error + Approximation" where
  "get_approximate X k distance =
     (if length X \<noteq> length k then Inl PreconditionError
      else if distance \<le> 0 then Inl PreconditionError
      else Inr (approximate X (find_peaks k (nat distance))))"

text \<open>
  Modelled from the spec: the reconstruction error of an approximation,
  \<open>mean(sum((X - X_approx)^2, axis=-1))\<close>. The mean of no number is \<open>nan\<close>, here
  \<open>None\<close>.
\<close>

definition mse :: "real list list \<Rightarrow> real list list \<Rightarrow> real option" where
  "mse X Xa =
     (if X = [] then None
      else Some ((\<Sum>(p, q)\<leftarrow>zip X Xa. \<Sum>(a, b)\<leftarrow>zip p q. (a - b)\<^sup>2) / real (length X)))"

text \<open>
  Modelled from the spec: a candidate of the search of \<open>find_approximation\<close>, an
  approximation with its distance and its reconstruction error.
\<close>

record candidate =
  approx :: Approximation
  cand_distance :: int
  cand_error :: "real option"

text \<open>
  Modelled from the spec: one run of the fixed-distance mode inside
  \<open>find_approximation\<close>, with the error of its result.
\<close>

definition evaluate :: "real list list \<Rightarrow> real list \<Rightarrow> int \<Rightarrow> error + candidate" where
  "evaluate X k d =
     (case get_approximate X k d of
        Inl e \<Rightarrow> Inl e
      | Inr a \<Rightarrow> Inr \<lparr>approx = a, cand_distance = d, cand_error = mse X (X_approx a)\<rparr>)"

text \<open>
  Modelled from the spec: how far the error of a candidate is from the error limit of
  \<open>find_approximation\<close> (\<open>nan\<close> when the error is).
\<close>

definition deviation :: "real \<Rightarrow> candidate \<Rightarrow> real option" where
  "deviation error_limit c = map_option (\<lambda>e. \<bar>e - error_limit\<bar>) (cand_error c)"

text \<open>
  Modelled from the spec: the three comparisons of the search of \<open>find_approximation\<close>,
  each of them false when a number compared is \<open>nan\<close>: the deviation is within the
  tolerance, the error is above the limit, a deviation is smaller than another.
\<close>

definition within_tolerance :: "real \<Rightarrow> real option \<Rightarrow> bool" where
  "within_tolerance tol dev = (case dev of None \<Rightarrow> False | Some v \<Rightarrow> v \<le> tol)"

definition above_limit :: "real \<Rightarrow> real option \<Rightarrow> bool" where
  "above_limit error_limit e = (case e of None \<Rightarrow> False | Some v \<Rightarrow> error_limit < v)"

definition nearer_limit :: "real option \<Rightarrow> real option \<Rightarrow> bool" where
  "nearer_limit dev dev' = (case (dev, dev') of (Some v, Some w) \<Rightarrow> v < w | _ \<Rightarrow> False)"

text \<open>
  Modelled from the spec: the bisection of \<open>find_approximation\<close> over the distance. It
  ends when the error of the current candidate is within the tolerance of the error
  limit (the flag is \<open>True\<close>), when the iteration budget is exhausted, or when the bracket
  can be narrowed no further; in the last two cases the best candidate found is returned
  (the flag is \<open>False\<close>). An error above the limit asks for a smaller distance, an error
  below it for a larger one.
\<close>

fun search ::
  "real list list \<Rightarrow> real list \<Rightarrow> real \<Rightarrow> real \<Rightarrow> nat \<Rightarrow> int \<Rightarrow> int \<Rightarrow> candidate \<Rightarrow> candidate
   \<Rightarrow> error + candidate \<times> bool" where
  "search X k error_limit tol 0 lo hi cur best =
     (if within_tolerance tol (deviation error_limit cur) then Inr (cur, True)
      else Inr (best, False))"
| "search X k error_limit tol (Suc n) lo hi cur best =
     (if within_tolerance tol (deviation error_limit cur) then Inr (cur, True)
      else
        let lo' = (if above_limit error_limit (cand_error cur) then lo else cand_distance cur);
            hi' = (if above_limit error_limit (cand_error cur) then cand_distance cur else hi);
            d = (lo' + hi') div 2
        in if hi' - lo' \<le> 1 then Inr (best, False)
           else
             (case evaluate X k d of
                Inl e \<Rightarrow> Inl e
              | Inr c \<Rightarrow>
                  search X k error_limit tol n lo' hi' c
                    (if nearer_limit (deviation error_limit c) (deviation error_limit best)
                     then c else best)))"

text \<open>
  Modelled from the spec: the candidates that the iterations of the bisection of
  \<open>find_approximation\<close> evaluate, in order.
\<close>

fun tried ::
  "real list list \<Rightarrow> real list \<Rightarrow> real \<Rightarrow> real \<Rightarrow> nat \<Rightarrow> int \<Rightarrow> int \<Rightarrow> candidate \<Rightarrow> candidate
   \<Rightarrow> candidate list" where
  "tried X k error_limit tol 0 lo hi cur best = []"
| "tried X k error_limit tol (Suc n) lo hi cur best =
     (if within_tolerance tol (deviation error_limit cur) then []
      else
        let lo' = (if above_limit error_limit (cand_error cur) then lo else cand_distance cur);
            hi' = (if above_limit error_limit (cand_error cur) then cand_distance cur else hi);
            d = (lo' + hi') div 2
        in if hi' - lo' \<le> 1 then []
           else
             (case evaluate X k d of
                Inl e \<Rightarrow> []
              | Inr c \<Rightarrow>
                  c # tried X k error_limit tol n lo' hi' c
                        (if nearer_limit (deviation error_limit c) (deviation error_limit best)
                         then c else best)))"

text \<open>
  Modelled from the spec: the warning that \<open>find_approximation\<close> logs when the search
  ends without reaching the tolerance.
\<close>

definition non_convergence_warning :: string where
  "non_convergence_warning = ''WARNING: error limit not reached, returning the best approximation found''"

text \<open>
  Modelled from the spec: \<open>find_approximation\<close>, the error-limit mode. The smoothing of
  the heading and the curvature computed from it are an external computation, the
  parameter \<open>curvature\<close> (given the two window widths and the raw heading); \<open>tol\<close> is the
  tolerance of the search. The specification returns a resolved peak height without
  giving the search one: \<open>height\<close> is passed through. The result is the approximation
  with the resolved parameters, and the messages logged.
\<close>

definition find_approximation ::
  "(nat \<Rightarrow> nat \<Rightarrow> real list list \<Rightarrow> real list) \<Rightarrow> real \<Rightarrow> real
   \<Rightarrow> real list list \<Rightarrow> real list list \<Rightarrow> real \<Rightarrow> nat \<Rightarrow> int \<Rightarrow> nat \<Rightarrow> nat
   \<Rightarrow> error + (Approximation \<times> int \<times> real \<times> nat \<times> nat) \<times> string list" where
  "find_approximation curvature tol height
       X e0_raw error_limit max_iterations distance_first smooth_e0_first smooth_K_first =
     (if length X \<noteq> length e0_raw then Inl PreconditionError
      else if distance_first \<le> 0 then Inl PreconditionError
      else if error_limit \<le> 0 then Inl PreconditionError
      else
        let k = curvature smooth_e0_first smooth_K_first e0_raw
        in case evaluate X k distance_first of
             Inl e \<Rightarrow> Inl e
           | Inr first \<Rightarrow>
               (case search X k error_limit tol max_iterations
                       1 (max distance_first (int (length X))) first first of
                  Inl e \<Rightarrow> Inl e
                | Inr (c, converged) \<Rightarrow>
                    Inr ((approx c, cand_distance c, height, smooth_e0_first, smooth_K_first),
                         if converged then [] else [non_convergence_warning])))"

text \<open>
  Modelled from the spec: all the candidates that \<open>find_approximation\<close> finds, the one
  at the first distance and those of the bisection.
\<close>

definition candidates_found ::
  "(nat \<Rightarrow> nat \<Rightarrow> real list list \<Rightarrow> real list) \<Rightarrow> real
   \<Rightarrow> real list list \<Rightarrow> real list list \<Rightarrow> real \<Rightarrow> nat \<Rightarrow> int \<Rightarrow> nat \<Rightarrow> nat
   \<Rightarrow> candidate list" where
  "candidates_found curvature tol
       X e0_raw error_limit max_iterations distance_first smooth_e0_first smooth_K_first =
     (let k = curvature smooth_e0_first smooth_K_first e0_raw
      in case evaluate X k distance_first of
           Inl e \<Rightarrow> []
         | Inr first \<Rightarrow>
             first # tried X k error_limit tol max_iterations
                       1 (max distance_first (int (length X))) first first)"

section \<open>Example trajectory\<close>

text \<open>
  A trajectory of seven points with a corner at the indices 2 and 4, a curvature signal
  with a peak at each corner, the higher one at 2, and a heading from which the
  curvature computation of the examples (which ignores the windows) reads this signal.
\<close>

definition wave :: "real list list" where
  "wave = [[0, 0, 0], [1, 1, 0], [2, 2, 0], [3, 1, 0], [4, 0, 0], [5, 1, 0], [6, 2, 0]]"

definition wave_curvature :: "real list" where
  "wave_curvature = [0, 0, 2, 0, 1, 0, 0]"

definition wave_heading :: "real list list" where
  "wave_heading =
     [[0, 0, 0], [0, 0, 0], [2, 0, 0], [0, 0, 0], [1, 0, 0], [0, 0, 0], [0, 0, 0]]"

definition summed_curvature :: "nat \<Rightarrow> nat \<Rightarrow> real list list \<Rightarrow> real list" where
  "summed_curvature smooth_e0 smooth_K e0 = map sum_list e0"

section \<open>The pinhole projection\<close>











lemma rounded_Num: "rounded r = Num s \<Longrightarrow> s = r"
  by (auto simp: rounded_def split: if_splits)

lemma fadd_Num: "fadd a b = Num r \<Longrightarrow> \<exists>a' b'. a = Num a' \<and> b = Num b' \<and> r = a' + b'"
  by (cases a; cases b) (auto dest: rounded_Num)

lemma fmul_Num: "fmul a b = Num r \<Longrightarrow> \<exists>a' b'. a = Num a' \<and> b = Num b' \<and> r = a' * b'"
  by (cases a; cases b) (auto dest: rounded_Num split: if_splits)

lemma overflow_threshold_large: "1000 < overflow_threshold"
  by (simp add: overflow_threshold_def)

lemma rounded_small: "\<bar>r\<bar> \<le> 1000 \<Longrightarrow> rounded r = Num r"
  using overflow_threshold_large by (auto simp: rounded_def)

lemma rounded_zero_one: "rounded 0 = Num 0" "rounded 1 = Num 1"
  by (simp_all add: rounded_small)

lemma distort_xy_float_zero:
  assumes "distort_xy_float (Num 0) (Num 0) (Num 0) (Num 0) (Num 0) x y = (Num a, Num b)"
  shows "x = Num a \<and> y = Num b"
proof -
  let ?r2 = "fadd (fmul x x) (fmul y y)"
  let ?radial = "fadd (Num 1)
      (fmul ?r2 (fadd (Num 0) (fmul ?r2 (fadd (Num 0) (fmul (Num 0) ?r2)))))"
  from assms have
    X: "fadd (fmul x (fadd ?radial (fmul (fmul (Num 2) (Num 0)) y)))
             (fmul (Num 0) (fadd ?r2 (fmul (fmul (Num 2) x) x))) = Num a"
    and Y: "fadd (fmul y (fadd ?radial (fmul (fmul (Num 2) (Num 0)) x)))
             (fmul (Num 0) (fadd ?r2 (fmul (fmul (Num 2) y) y))) = Num b"
    by (simp_all add: distort_xy_float_def Let_def)
  from fadd_Num[OF X] obtain t u where
    t: "fmul x (fadd ?radial (fmul (fmul (Num 2) (Num 0)) y)) = Num t"
    and u: "fmul (Num 0) (fadd ?r2 (fmul (fmul (Num 2) x) x)) = Num u"
    and a: "a = t + u" by blast
  from fmul_Num[OF u] have u0: "u = 0" by auto
  from fmul_Num[OF t] obtain xr br where x: "x = Num xr"
    and br: "fadd ?radial (fmul (fmul (Num 2) (Num 0)) y) = Num br" and tt: "t = xr * br"
    by blast
  from fadd_Num[OF br] obtain rr q where radial: "?radial = Num rr"
    and q: "fmul (fmul (Num 2) (Num 0)) y = Num q" and brr: "br = rr + q"
    by blast
  from fmul_Num[OF q] obtain yr where y: "y = Num yr" by blast
  from q have q0: "q = 0" by (auto dest!: fmul_Num simp: rounded_zero_one)
  from fadd_Num[OF radial] obtain c where
    c: "fmul ?r2 (fadd (Num 0) (fmul ?r2 (fadd (Num 0) (fmul (Num 0) ?r2)))) = Num c"
    and rr: "rr = 1 + c"
    by auto
  from fmul_Num[OF c] obtain rv where r2: "?r2 = Num rv" by blast
  have c0: "c = 0" using c unfolding r2 by (simp add: rounded_zero_one)
  have br1: "br = 1" using brr rr c0 q0 by simp
  have xa: "a = xr" using a u0 tt br1 by simp
  from fadd_Num[OF Y] obtain t' u' where
    t': "fmul y (fadd ?radial (fmul (fmul (Num 2) (Num 0)) x)) = Num t'"
    and u': "fmul (Num 0) (fadd ?r2 (fmul (fmul (Num 2) y) y)) = Num u'"
    and b: "b = t' + u'" by blast
  from fmul_Num[OF u'] have u0': "u' = 0" by auto
  have "fadd ?radial (fmul (fmul (Num 2) (Num 0)) x) = Num 1"
    using radial rr c0 unfolding x by (simp add: rounded_zero_one)
  with t' have "t' = yr" unfolding y by (auto dest: rounded_Num)
  with b u0' have "b = yr" by simp
  with xa x y show ?thesis by simp
qed

lemma out_Num:
  assumes "[fadd (fmul focal_x x) centre_x, fadd (fmul focal_y y) centre_y] = [Num u, Num v]"
  shows "\<exists>a b. x = Num a \<and> y = Num b"
proof -
  from assms have "fadd (fmul focal_x x) centre_x = Num u" "fadd (fmul focal_y y) centre_y = Num v" by simp_all
  then obtain s t where "fmul focal_x x = Num s" "fmul focal_y y = Num t"
    by (blast dest: fadd_Num)
  then show ?thesis by (blast dest: fmul_Num)
qed

text \<open>
  C5, as the code has it. For a camera whose five distortion coefficients are all zero:
  at a point where the projection with the distortion applied returns two finite numbers,
  the projection without the distortion returns the same two numbers.
\<close>

theorem distortion_identity:
  assumes "PinholeCamera.distortion cam = Some [0, 0, 0, 0, 0]"
    and "project_to_2d_float cam p True = Inr [Num u, Num v]"
  shows "project_to_2d_float cam p False = Inr [Num u, Num v]"
proof -
  from assms(2) have len: "length p = 3"
    by (auto simp: project_to_2d_float_def split: if_splits)
  let ?xv = "map2 fadd
      (map (\<lambda>row. fdot (map Num row) (map Num p)) (PinholeCamera.rotation cam))
      (map Num (PinholeCamera.translation cam))"
  let ?fx = "Num (matrix cam ! 0 ! 0)"
  let ?fy = "Num (matrix cam ! 1 ! 1)"
  let ?cx = "Num (matrix cam ! 0 ! 2)"
  let ?cy = "Num (matrix cam ! 1 ! 2)"
  let ?xy = "case shift cam of
      None \<Rightarrow> (fdiv (?xv ! 0) (?xv ! 2), fdiv (?xv ! 1) (?xv ! 2))
    | Some s \<Rightarrow> (fadd (fdiv (?xv ! 0) (?xv ! 2)) (fdiv (Num (fst s)) ?fx),
                 fadd (fdiv (?xv ! 1) (?xv ! 2)) (fdiv (Num (snd s)) ?fy))"
  let ?d = "distort_xy_float (Num 0) (Num 0) (Num 0) (Num 0) (Num 0) (fst ?xy) (snd ?xy)"
  have T: "project_to_2d_float cam p True
           = Inr [fadd (fmul ?fx (fst ?d)) ?cx, fadd (fmul ?fy (snd ?d)) ?cy]"
    using len assms(1)
    by (cases "shift cam") (simp_all add: project_to_2d_float_def Let_def case_prod_beta)
  have F: "project_to_2d_float cam p False
           = Inr [fadd (fmul ?fx (fst ?xy)) ?cx, fadd (fmul ?fy (snd ?xy)) ?cy]"
    using len
    by (cases "shift cam") (simp_all add: project_to_2d_float_def Let_def case_prod_beta)
  from T assms(2) have o: "[fadd (fmul ?fx (fst ?d)) ?cx, fadd (fmul ?fy (snd ?d)) ?cy]
      = [Num u, Num v]"
    by simp
  from out_Num[OF o] obtain a b where "fst ?d = Num a" "snd ?d = Num b" by blast
  then have "?d = (Num a, Num b)" by (simp add: prod_eq_iff)
  from distort_xy_float_zero[OF this] have "fst ?xy = fst ?d" "snd ?xy = snd ?d"
    using \<open>fst ?d = Num a\<close> \<open>snd ?d = Num b\<close> by simp_all
  with F o show ?thesis by simp
qed

lemma flat_camera_fields:
  "PinholeCamera.distortion flat_camera = Some [0, 0, 0, 0, 0]"
  "PinholeCamera.rotation flat_camera = [[1, 0, 0], [0, 1, 0], [0, 0, 1]]"
  "PinholeCamera.translation flat_camera = [0, 0, 1]"
  "matrix flat_camera = [[2, 0, 1], [0, 2, 1], [0, 0, 1]]"
  "shift flat_camera = Some (2, 4)"
  by (simp_all add: flat_camera_def lens_camera_def)

lemma flat_camera_distorted:
  "project_to_2d_float flat_camera [1, 0, 1] True = Inr [Num 4, Num 5]"
  by (simp add: project_to_2d_float_def flat_camera_fields fdot_def distort_xy_float_def
      rounded_small Let_def)

theorem distortion_identity_witness:
  "PinholeCamera.distortion flat_camera = Some [0, 0, 0, 0, 0]
   \<and> project_to_2d_float flat_camera [1, 0, 1] True = Inr [Num 4, Num 5]
   \<and> project_to_2d_float flat_camera [1, 0, 1] False = Inr [Num 4, Num 5]"
  using distortion_identity[OF flat_camera_fields(1) flat_camera_distorted]
    flat_camera_fields(1) flat_camera_distorted
  by (intro conjI)

lemma unit_camera_fields:
  "PinholeCamera.distortion unit_camera = Some [0, 0, 0, 0, 0]"
  "PinholeCamera.rotation unit_camera = [[1, 0, 0], [0, 1, 0], [0, 0, 1]]"
  "PinholeCamera.translation unit_camera = [0, 0, 0]"
  "matrix unit_camera = [[1, 0, 0], [0, 1, 0], [0, 0, 1]]"
  "shift unit_camera = None"
  by (simp_all add: unit_camera_def example_camera_def)

lemma unit_camera_overflow:
  assumes "rounded h = Num h" and "rounded (h * h) = PInf"
  shows "project_to_2d_float unit_camera [h, 0, 1] True = Inr [NaN, NaN]"
    and "project_to_2d_float unit_camera [h, 0, 1] False = Inr [Num h, Num 0]"
  using assms
  by (simp_all add: project_to_2d_float_def unit_camera_fields fdot_def distort_xy_float_def
      rounded_small Let_def)

lemma rounded_power:
  "rounded (2 ^ 512) = Num (2 ^ 512)" "rounded (2 ^ 512 * 2 ^ 512) = PInf"
  by (simp_all add: rounded_def overflow_threshold_def)

text \<open>
  C5, as the specification words it, does not hold at every input point. For the camera
  with the identity pose, unit focal lengths and five zero coefficients, at the point
  \<open>(2^512, 0, 1)\<close> of depth 1: \<open>r2 = x * x\<close> overflows to \<open>inf\<close> and \<open>k3 * r2\<close> is
  \<open>0 * inf\<close>, so that the projection with the distortion applied returns two \<open>nan\<close>,
  and the projection without it returns \<open>(2^512, 0)\<close>.
\<close>

theorem distortion_identity_counterexample:
  "PinholeCamera.distortion unit_camera = Some [0, 0, 0, 0, 0]
   \<and> project_to_2d_float unit_camera [2 ^ 512, 0, 1] True = Inr [NaN, NaN]
   \<and> project_to_2d_float unit_camera [2 ^ 512, 0, 1] False = Inr [Num (2 ^ 512), Num 0]"
  by (intro conjI) (rule unit_camera_fields(1) unit_camera_overflow[OF rounded_power])+

section \<open>The triangulation\<close>

lemma length_itertools_product:
  "length (itertools_product xss) = prod_list (map length xss)"
  by (induction xss) (simp_all add: length_concat comp_def sum_list_triv)

lemma itertools_product_empty: "[] \<in> set xss \<Longrightarrow> itertools_product xss = []"
  by (induction xss) auto

lemma project_to_2d_defined:
  assumes "length x = 3"
    and "case PinholeCamera.distortion cam of None \<Rightarrow> True | Some d \<Rightarrow> length d = 5"
  shows "\<exists>r. project_to_2d cam x flag = Inr r"
proof (cases "PinholeCamera.distortion cam")
  case None
  with assms show ?thesis by (simp add: project_to_2d_def Let_def split: prod.splits)
next
  case (Some d)
  with assms have "length d = 5" by simp
  then obtain k1 k2 p1 p2 k3 where "d = [k1, k2, p1, p2, k3]"
    by (auto simp: eval_nat_numeral length_Suc_conv)
  with Some assms show ?thesis
    by (simp add: project_to_2d_def Let_def split: prod.splits)
qed

lemma f_term_defined:
  assumes "calibrated cams" and "length x = 3" and "c < 3"
  shows "\<exists>v. f_term (get_camera_model_triplet cams) x (points_2d ip comb) c = Inr v"
proof -
  from assms have c: "c < length (get_camera_model_triplet cams)"
    and d: "case PinholeCamera.distortion (get_camera_model_triplet cams ! c) of
              None \<Rightarrow> True | Some d \<Rightarrow> length d = 5"
    by (simp_all add: calibrated_def list_all_length)
  from project_to_2d_defined[OF assms(2) d, of True] obtain r where
    "project_to_2d (get_camera_model_triplet cams ! c) x True = Inr r" by blast
  with c assms(3) show ?thesis
    by (cases r) (simp_all add: f_term_def getitem_def points_2d_def)
qed

lemma f_defined:
  assumes "calibrated cams" and "length x = 3"
  shows "\<exists>v. f (get_camera_model_triplet cams) (points_2d ip comb) x = Inr v"
proof -
  from f_term_defined[OF assms, of 0 ip comb] f_term_defined[OF assms, of 1 ip comb]
    f_term_defined[OF assms, of 2 ip comb]
  obtain a b c where
    "f_term (get_camera_model_triplet cams) x (points_2d ip comb) 0 = Inr a"
    "f_term (get_camera_model_triplet cams) x (points_2d ip comb) 1 = Inr b"
    "f_term (get_camera_model_triplet cams) x (points_2d ip comb) 2 = Inr c"
    by auto
  then show ?thesis
    by (simp add: f_def CAMERA_IDXS_def split: option.splits)
qed

lemma solve_one_defined:
  assumes "calibrated cams" and "length x0 = 3"
  shows "solve_one m cams ip x0 c =
           Inr (object_point cams
                  (m (f (get_camera_model_triplet cams) (points_2d ip c)) x0
                     (reprojection_error cams)) c)"
  using f_defined[OF assms, of ip c] by (auto simp: solve_one_def call_minimize_def)

lemma solve_one_Inr:
  assumes "solve_one m cams ip x0 c = Inr p"
  shows "p = object_point cams
               (m (f (get_camera_model_triplet cams) (points_2d ip c)) x0
                  (reprojection_error cams)) c"
  using assms by (auto simp: solve_one_def call_minimize_def split: sum.splits)

lemma solve_loop_Inr:
  assumes "solve_loop m cams ip x0 (acc, b) cs = Inr (res, best)"
  shows "res = acc @ map (\<lambda>c. object_point cams
               (m (f (get_camera_model_triplet cams) (points_2d ip c)) x0
                  (reprojection_error cams)) c) cs
       \<and> best = foldl py_min b (map (\<lambda>c. error (object_point cams
               (m (f (get_camera_model_triplet cams) (points_2d ip c)) x0
                  (reprojection_error cams)) c)) cs)"
  using assms
proof (induction cs arbitrary: acc b)
  case Nil
  then show ?case by simp
next
  case (Cons c cs)
  from Cons.prems obtain p where p: "solve_one m cams ip x0 c = Inr p"
    by (cases "solve_one m cams ip x0 c") auto
  with Cons.prems have
    "solve_loop m cams ip x0 (acc @ [p], py_min b (error p)) cs = Inr (res, best)" by simp
  from Cons.IH[OF this] solve_one_Inr[OF p] show ?case by simp
qed

lemma solve_loop_defined:
  assumes "calibrated cams" and "length x0 = 3"
  shows "\<exists>res best. solve_loop m cams ip x0 (acc, b) cs = Inr (res, best)"
proof (induction cs arbitrary: acc b)
  case Nil
  then show ?case by simp
next
  case (Cons c cs)
  show ?case using Cons[of _ _] by (simp add: solve_one_defined[OF assms])
qed

lemma solve_combinations_Inr:
  assumes "solve_combinations m cams ip x0 = Inr (res, best)"
  shows "res = all_candidates m cams ip x0"
    and "best = foldl py_min Infinity (map error (all_candidates m cams ip x0))"
  using solve_loop_Inr[OF assms[unfolded solve_combinations_def]]
  by (simp_all add: all_candidates_def comp_def)

lemma solve_combinations_defined:
  assumes "calibrated cams" and "length x0 = 3"
  shows "solve_combinations m cams ip x0 =
           Inr (all_candidates m cams ip x0,
                foldl py_min Infinity (map error (all_candidates m cams ip x0)))"
proof -
  from solve_loop_defined[OF assms, of m ip "[]" Infinity "point_key_combinations ip"]
  obtain res best where r: "solve_combinations m cams ip x0 = Inr (res, best)"
    by (auto simp: solve_combinations_def)
  with solve_combinations_Inr[OF r] show ?thesis by simp
qed

lemma foldl_py_min_Finite:
  "foldl py_min (Finite b) es = Finite (Min (set (b # List.map_filter (\<lambda>e. e) es)))"
proof -
  have "foldl py_min (Finite b) es = Finite (fold min (List.map_filter (\<lambda>e. e) es) b)"
  proof (induction es arbitrary: b)
    case Nil
    then show ?case by (simp add: List.map_filter_simps)
  next
    case (Cons e es)
    show ?case
    proof (cases e)
      case None
      then show ?thesis using Cons.IH[of b] by (simp add: py_min_def List.map_filter_simps)
    next
      case (Some v)
      have "py_min (Finite b) (Some v) = Finite (min v b)"
        by (simp add: py_min_def min_def)
      then show ?thesis using Some Cons.IH[of "min v b"]
        by (simp add: List.map_filter_simps)
    qed
  qed
  then show ?thesis by (simp only: Min.set_eq_fold)
qed

lemma foldl_py_min_Infinity:
  "foldl py_min Infinity es =
     (if List.map_filter (\<lambda>e. e) es = [] then Infinity
      else Finite (Min (set (List.map_filter (\<lambda>e. e) es))))"
proof (induction es)
  case Nil
  then show ?case by (simp add: List.map_filter_simps)
next
  case (Cons e es)
  show ?case
  proof (cases e)
    case None
    then show ?thesis using Cons by (simp add: py_min_def List.map_filter_simps)
  next
    case (Some v)
    have "py_min Infinity (Some v) = Finite v" by (simp add: py_min_def)
    then show ?thesis using Some foldl_py_min_Finite[of v es]
      by (simp add: List.map_filter_simps)
  qed
qed

lemma best_error:
  "foldl py_min Infinity (map error cs) =
     (if finite_errors cs = [] then Infinity else Finite (Min (set (finite_errors cs))))"
proof -
  have "List.map_filter (\<lambda>e. e) (map error cs) = finite_errors cs"
    by (simp add: finite_errors_def List.map_filter_def comp_def filter_map)
  then show ?thesis by (simp add: foldl_py_min_Infinity)
qed

lemma point_key_combinations3:
  "point_key_combinations [v0, v1, v2] =
     [[i, j, k]. i \<leftarrow> [0..<length v0], j \<leftarrow> [0..<length v1], k \<leftarrow> [0..<length v2]]"
  by (simp add: point_key_combinations_def comp_def map_concat)

lemma collect_length: "collect ts = Inr vs \<Longrightarrow> length vs = length ts"
  by (induction ts arbitrary: vs) (auto split: sum.splits)

lemma collect_Inl: "collect ts = Inl e \<Longrightarrow> Inl e \<in> set ts"
  by (induction ts) (auto split: sum.splits)

lemma reproject_strip:
  "reproject cm r = Inr r' \<Longrightarrow>
   r'\<lparr>reprojected_points_2d := []\<rparr> = r\<lparr>reprojected_points_2d := []\<rparr>"
  by (auto simp: reproject_def split: sum.splits)

lemma collect_reproject_strip:
  "collect (map (reproject cm) xs) = Inr rs \<Longrightarrow>
   map (\<lambda>r. r\<lparr>reprojected_points_2d := []\<rparr>) rs
     = map (\<lambda>r. r\<lparr>reprojected_points_2d := []\<rparr>) xs"
  by (induction xs arbitrary: rs) (auto split: sum.splits dest: reproject_strip)

lemma reproject_error: "reproject cm r = Inr r' \<Longrightarrow> error r' = error r"
  by (auto simp: reproject_def split: sum.splits)

lemma collect_reproject_errors:
  "collect (map (reproject cm) xs) = Inr rs \<Longrightarrow> map error rs = map error xs"
  by (induction xs arbitrary: rs) (auto split: sum.splits dest: reproject_error)

lemma all_candidates_unprojected:
  "map (\<lambda>r. r\<lparr>reprojected_points_2d := []\<rparr>) (all_candidates m cams ip x0)
     = all_candidates m cams ip x0"
  by (simp add: all_candidates_def object_point_def)

lemma strip_sort_filter:
  assumes "map (\<lambda>r. r\<lparr>reprojected_points_2d := []\<rparr>) xs = xs"
  shows "map (\<lambda>r. r\<lparr>reprojected_points_2d := []\<rparr>) (sort_key error (filter P xs))
         = sort_key error (filter P xs)"
proof -
  from assms have "\<forall>r\<in>set xs. r\<lparr>reprojected_points_2d := []\<rparr> = r"
    by (simp add: map_idI map_eq_conv[where g = "\<lambda>x. x", simplified])
  then have "\<forall>r\<in>set (sort_key error (filter P xs)). r\<lparr>reprojected_points_2d := []\<rparr> = r"
    by simp
  then show ?thesis by (intro map_idI) auto
qed

lemma project_to_2d_raises:
  "project_to_2d cam p d = Inl e \<Longrightarrow> e = AssertionError \<or> e = UnpackError"
  by (auto simp: project_to_2d_def Let_def split: if_splits option.splits list.splits prod.splits)

lemma reproject_raises:
  assumes "reproject cm r = Inl e"
  shows "e = AssertionError \<or> e = UnpackError \<or> e = IndexError"
proof -
  from assms have "collect (map (\<lambda>c. case getitem cm c of
                               Inl e \<Rightarrow> Inl e
                             | Inr cam \<Rightarrow> project_to_2d cam (point_3d r) True)
                        CAMERA_IDXS) = Inl e"
    by (auto simp: reproject_def split: sum.splits)
  from collect_Inl[OF this] obtain c where
    "(case getitem cm c of Inl e \<Rightarrow> Inl e
      | Inr cam \<Rightarrow> project_to_2d cam (point_3d r) True) = Inl e"
    by auto
  then show ?thesis
    by (auto simp: getitem_def split: sum.splits if_splits dest: project_to_2d_raises)
qed

lemma collect_reproject_no_zero_points:
  "collect (map (reproject cm) xs) \<noteq> Inl (ZeroPointsError b t)"
proof
  assume "collect (map (reproject cm) xs) = Inl (ZeroPointsError b t)"
  from collect_Inl[OF this] obtain x where "reproject cm x = Inl (ZeroPointsError b t)"
    by auto
  from reproject_raises[OF this] show False by simp
qed

lemma triangulate_cases:
  assumes "length image_points = 3"
    and "list_all (list_all (\<lambda>pts. length pts = 2)) image_points"
    and "case x0 of None \<Rightarrow> True | Some v \<Rightarrow> length v = 3"
    and "solve_combinations minimize cams image_points (initial_guess x0) = Inr (cands, best)"
  shows "triangulate minimize image_points cams x0 thr =
     (if sort_key error (filter (\<lambda>r. below thr (error r)) cands) = []
      then Inl (ZeroPointsError best thr)
      else collect (map (reproject (get_camera_model_triplet cams))
             (sort_key error (filter (\<lambda>r. below thr (error r)) cands))))"
  using assms
  by (cases x0) (simp_all add: triangulate_def Let_def)

lemma triangulate_Inr:
  assumes "triangulate minimize image_points cams x0 thr = Inr rs"
  shows "collect (map (reproject (get_camera_model_triplet cams))
           (sort_key error (filter (\<lambda>r. below thr (error r))
              (all_candidates minimize cams image_points (initial_guess x0))))) = Inr rs"
proof -
  from assms obtain cands best where
    s: "solve_combinations minimize cams image_points (initial_guess x0) = Inr (cands, best)"
    and c: "collect (map (reproject (get_camera_model_triplet cams))
           (sort_key error (filter (\<lambda>r. below thr (error r)) cands))) = Inr rs"
    by (auto simp: triangulate_def Let_def split: if_splits sum.splits)
  from solve_combinations_Inr(1)[OF s] c show ?thesis by simp
qed

lemma initial_guess_length:
  "case x0 of None \<Rightarrow> True | Some v \<Rightarrow> length v = 3 \<Longrightarrow> length (initial_guess x0) = 3"
  by (cases x0) (simp_all add: initial_guess_def)

lemma collect_defined:
  "(\<And>t. t \<in> set ts \<Longrightarrow> \<exists>v. t = Inr v) \<Longrightarrow> \<exists>vs. collect ts = Inr vs"
proof (induction ts)
  case Nil
  then show ?case by simp
next
  case (Cons t ts)
  from Cons.prems[of t] obtain v where "t = Inr v" by auto
  moreover from Cons.IH Cons.prems obtain vs where "collect ts = Inr vs" by auto
  ultimately show ?case by simp
qed

lemma reproject_defined:
  assumes "calibrated cams" and "length (point_3d r) = 3"
  shows "\<exists>r'. reproject (get_camera_model_triplet cams) r = Inr r'"
proof -
  have "\<exists>v. (case getitem (get_camera_model_triplet cams) c of
               Inl e \<Rightarrow> Inl e
             | Inr cam \<Rightarrow> project_to_2d cam (point_3d r) True) = Inr v" if "c < 3" for c
  proof -
    from assms that have c: "c < length (get_camera_model_triplet cams)"
      and d: "case PinholeCamera.distortion (get_camera_model_triplet cams ! c) of
              None \<Rightarrow> True | Some d \<Rightarrow> length d = 5"
      by (simp_all add: calibrated_def list_all_length)
    from project_to_2d_defined[OF assms(2) d, of True] c show ?thesis
      by (simp add: getitem_def)
  qed
  then have "\<exists>vs. collect (map (\<lambda>c. case getitem (get_camera_model_triplet cams) c of
                               Inl e \<Rightarrow> Inl e
                             | Inr cam \<Rightarrow> project_to_2d cam (point_3d r) True)
                        CAMERA_IDXS) = Inr vs"
    by (intro collect_defined) (auto simp: CAMERA_IDXS_def)
  then show ?thesis by (auto simp: reproject_def)
qed

lemma triangulate_returns:
  assumes "length image_points = 3"
    and "list_all (list_all (\<lambda>pts. length pts = 2)) image_points"
    and "case x0 of None \<Rightarrow> True | Some v \<Rightarrow> length v = 3"
    and "calibrated cams"
    and "list_all (\<lambda>r. length (point_3d r) = 3)
           (all_candidates minimize cams image_points (initial_guess x0))"
    and "filter (\<lambda>r. below thr (error r))
           (all_candidates minimize cams image_points (initial_guess x0)) \<noteq> []"
  shows "\<exists>rs. triangulate minimize image_points cams x0 thr = Inr rs"
proof -
  let ?C = "all_candidates minimize cams image_points (initial_guess x0)"
  let ?kept = "sort_key error (filter (\<lambda>r. below thr (error r)) ?C)"
  have len: "length (initial_guess x0) = 3" by (rule initial_guess_length[OF assms(3)])
  have S: "solve_combinations minimize cams image_points (initial_guess x0)
           = Inr (?C, foldl py_min Infinity (map error ?C))"
    by (rule solve_combinations_defined[OF assms(4) len])
  have ne: "?kept \<noteq> []"
    using assms(6) by (metis length_sort list.size(3) length_0_conv)
  have "\<exists>v. t = Inr v" if "t \<in> set (map (reproject (get_camera_model_triplet cams)) ?kept)"
    for t
  proof -
    from that obtain r where r: "r \<in> set ?C"
      and t: "t = reproject (get_camera_model_triplet cams) r" by auto
    from assms(5) r have "length (point_3d r) = 3" by (simp add: list_all_iff)
    from reproject_defined[OF assms(4) this] t show ?thesis by simp
  qed
  then obtain rs where
    "collect (map (reproject (get_camera_model_triplet cams)) ?kept) = Inr rs"
    using collect_defined by blast
  with triangulate_cases[OF assms(1-3) S, of thr] ne show ?thesis by simp
qed

subsection \<open>Examples\<close>

lemma example_projection: "project_to_2d example_camera [0, 0, 1] True = Inr (Pixel [0, 0])"
  by (simp add: example_camera_def project_to_2d_def matmul_def vec_add_def Let_def)

lemma example_projection_degenerate:
  "project_to_2d example_camera [0, 0, 0] True = Inr Degenerate"
  by (simp add: example_camera_def project_to_2d_def matmul_def vec_add_def Let_def)

lemma example_f:
  "f [example_camera, example_camera, example_camera] [[a, b], [c, d], [0, 0]] [0, 0, 1]
   = Inr (Some (sqrt (a * a + b * b + (c * c + d * d))))"
proof -
  have "0 \<le> a * a + b * b" "0 \<le> c * c + d * d" by simp_all
  then show ?thesis
    by (simp add: f_def f_term_def CAMERA_IDXS_def getitem_def example_projection vec_sub_def
        linalg_norm_def)
qed

lemma example_f_degenerate:
  "f [example_camera, example_camera, example_camera] pts [0, 0, 0] = Inr None"
  by (simp add: f_def f_term_def CAMERA_IDXS_def getitem_def example_projection_degenerate)

lemma sqrt_values: "sqrt 9 = 3" "sqrt 16 = 4" "sqrt 25 = 5"
  by (rule real_sqrt_unique; simp)+

lemma example_fields:
  "get_camera_model_triplet example_cameras = [example_camera, example_camera, example_camera]"
  "reprojection_error example_cameras = None"
  by (simp_all add: example_cameras_def)

lemma example_calibrated: "calibrated example_cameras"
  by (simp add: calibrated_def example_fields) (simp add: example_camera_def)

lemma boundary_all_candidates:
  "all_candidates stay example_cameras boundary_points [0, 0, 1] =
   [\<lparr>cameras = example_cameras, point_3d = [0, 0, 1], error = Some 0,
      source_point_idxs = [0, 0, 0], reprojected_points_2d = []\<rparr>,
    \<lparr>cameras = example_cameras, point_3d = [0, 0, 1], error = Some 1,
      source_point_idxs = [1, 0, 0], reprojected_points_2d = []\<rparr>]"
  by (simp add: all_candidates_def point_key_combinations_def object_point_def points_2d_def
      boundary_points_def stay_def example_f upt_rec example_fields)

lemma boundary_degenerate_candidates:
  "all_candidates stay example_cameras boundary_points [0, 0, 0] =
   [\<lparr>cameras = example_cameras, point_3d = [0, 0, 0], error = None,
      source_point_idxs = [0, 0, 0], reprojected_points_2d = []\<rparr>,
    \<lparr>cameras = example_cameras, point_3d = [0, 0, 0], error = None,
      source_point_idxs = [1, 0, 0], reprojected_points_2d = []\<rparr>]"
  by (simp add: all_candidates_def point_key_combinations_def object_point_def points_2d_def
      boundary_points_def stay_def example_f_degenerate upt_rec example_fields)

lemma six_all_candidates:
  "all_candidates stay example_cameras six_points [0, 0, 1] =
   [\<lparr>cameras = example_cameras, point_3d = [0, 0, 1], error = Some 0,
      source_point_idxs = [0, 0, 0], reprojected_points_2d = []\<rparr>,
    \<lparr>cameras = example_cameras, point_3d = [0, 0, 1], error = Some 4,
      source_point_idxs = [0, 1, 0], reprojected_points_2d = []\<rparr>,
    \<lparr>cameras = example_cameras, point_3d = [0, 0, 1], error = Some 4,
      source_point_idxs = [0, 2, 0], reprojected_points_2d = []\<rparr>,
    \<lparr>cameras = example_cameras, point_3d = [0, 0, 1], error = Some 3,
      source_point_idxs = [1, 0, 0], reprojected_points_2d = []\<rparr>,
    \<lparr>cameras = example_cameras, point_3d = [0, 0, 1], error = Some 5,
      source_point_idxs = [1, 1, 0], reprojected_points_2d = []\<rparr>,
    \<lparr>cameras = example_cameras, point_3d = [0, 0, 1], error = Some 5,
      source_point_idxs = [1, 2, 0], reprojected_points_2d = []\<rparr>]"
  by (simp add: all_candidates_def point_key_combinations_def object_point_def points_2d_def
      six_points_def stay_def example_f upt_rec example_fields sqrt_values)

lemma boundary_valid:
  "length boundary_points = 3"
  "list_all (list_all (\<lambda>pts. length pts = 2)) boundary_points"
  by (simp_all add: boundary_points_def)

lemma six_valid:
  "length six_points = 3"
  "list_all (list_all (\<lambda>pts. length pts = 2)) six_points"
  by (simp_all add: six_points_def)

lemma start_valid: "case Some [a, b, c :: real] of None \<Rightarrow> True | Some v \<Rightarrow> length v = 3"
  by simp

lemma start_guess: "initial_guess (Some v) = v"
  by (simp add: initial_guess_def)

lemma example_solve:
  "solve_combinations stay example_cameras ip [a, b, c] =
     Inr (all_candidates stay example_cameras ip [a, b, c],
          foldl py_min Infinity (map error (all_candidates stay example_cameras ip [a, b, c])))"
  by (rule solve_combinations_defined[OF example_calibrated]) simp

lemma example_reproject:
  "reproject [example_camera, example_camera, example_camera]
     \<lparr>cameras = cs, point_3d = [0, 0, 1], error = e, source_point_idxs = is,
      reprojected_points_2d = []\<rparr>
   = Inr \<lparr>cameras = cs, point_3d = [0, 0, 1], error = e, source_point_idxs = is,
          reprojected_points_2d = [Pixel [0, 0], Pixel [0, 0], Pixel [0, 0]]\<rparr>"
  by (simp add: reproject_def CAMERA_IDXS_def getitem_def example_projection)

lemma boundary_triangulate_zero:
  "triangulate stay boundary_points example_cameras (Some [0, 0, 1]) 0 =
   Inl (ZeroPointsError (Finite 0) 0)"
  by (simp add: triangulate_cases[OF boundary_valid start_valid, unfolded start_guess,
        OF example_solve] boundary_all_candidates below_def py_min_def)

lemma all_candidates3:
  "all_candidates minimize cams [v0, v1, v2] x0
      = [\<lparr>cameras = cams,
          point_3d = res_x (minimize (f (get_camera_model_triplet cams)
                                         [v0 ! i, v1 ! j, v2 ! k])
                              x0 (reprojection_error cams)),
          error = res_fun (minimize (f (get_camera_model_triplet cams)
                                         [v0 ! i, v1 ! j, v2 ! k])
                              x0 (reprojection_error cams)),
          source_point_idxs = [i, j, k],
          reprojected_points_2d = []\<rparr>.
        i \<leftarrow> [0..<length v0], j \<leftarrow> [0..<length v1], k \<leftarrow> [0..<length v2]]"
  by (simp add: all_candidates_def point_key_combinations3 map_concat comp_def
      object_point_def points_2d_def del: upt_Suc)

lemma length_point_key_combinations3:
  "length (point_key_combinations [v0, v1, v2]) = length v0 * length v1 * length v2"
  unfolding point_key_combinations_def length_itertools_product by simp

lemma sort_key_Nil_iff: "sort_key k xs = [] \<longleftrightarrow> xs = []"
  by (metis length_sort list.size(3) length_0_conv)

lemma triangulate_defined:
  assumes "length image_points = 3"
    and "list_all (list_all (\<lambda>pts. length pts = 2)) image_points"
    and "case x0 of None \<Rightarrow> True | Some v \<Rightarrow> length v = 3"
    and "calibrated cams"
  shows "triangulate minimize image_points cams x0 thr =
     (if filter (\<lambda>r. below thr (error r))
           (all_candidates minimize cams image_points (initial_guess x0)) = []
      then Inl (ZeroPointsError
             (foldl py_min Infinity
                (map error (all_candidates minimize cams image_points (initial_guess x0))))
             thr)
      else collect (map (reproject (get_camera_model_triplet cams))
             (sort_key error (filter (\<lambda>r. below thr (error r))
                (all_candidates minimize cams image_points (initial_guess x0))))))"
  using triangulate_cases[OF assms(1-3)
      solve_combinations_defined[OF assms(4) initial_guess_length[OF assms(3)]],
      where thr = thr and minimize = minimize]
  by (simp add: sort_key_Nil_iff)

lemma sorted_map_Some: "sorted (map Some es) \<longleftrightarrow> sorted (es :: real list)"
  by (induction es) auto

lemma below_all_Some:
  "\<forall>x\<in>set xs. below thr x \<Longrightarrow> \<exists>es. xs = map Some es \<and> list_all (\<lambda>e. e < thr) es"
proof (induction xs)
  case Nil
  then show ?case by simp
next
  case (Cons x xs)
  then obtain es where "xs = map Some es" "list_all (\<lambda>e. e < thr) es" by auto
  moreover from Cons.prems obtain v where "x = Some v" "v < thr"
    by (cases x) (auto simp: below_def)
  ultimately have "x # xs = map Some (v # es) \<and> list_all (\<lambda>e. e < thr) (v # es)" by simp
  then show ?case by (rule exI)
qed

section \<open>Properties of the triangulation\<close>

text \<open>
  C1. A call of \<open>triangulate\<close> whose inputs pass the assertions, on a calibrated triplet
  and three views \<open>v0\<close>, \<open>v1\<close> and \<open>v2\<close>: the combinations are the triples of indices
  \<open>[i, j, k]\<close>, one per element of the Cartesian product, \<open>length v0 * length v1 *
  length v2\<close> of them; the loop calls the minimizer once per combination, always from the
  same start point, and builds from each result one candidate, which carries the point
  \<open>res.x\<close>, the value \<open>res.fun\<close> as its error and the combination as its source indices;
  and what \<open>triangulate\<close> does then, the filter, the sort and the re-projection, it does
  on this list of candidates.
\<close>

theorem triangulate_candidates:
  assumes "list_all (\<lambda>pts. length pts = 2) v0"
    and "list_all (\<lambda>pts. length pts = 2) v1"
    and "list_all (\<lambda>pts. length pts = 2) v2"
    and "case x0 of None \<Rightarrow> True | Some v \<Rightarrow> length v = 3"
    and "calibrated cams"
  shows "let start = initial_guess x0;
             res = (\<lambda>i j k. minimize (f (get_camera_model_triplet cams) [v0 ! i, v1 ! j, v2 ! k])
                               start (reprojection_error cams));
             res_3d = [\<lparr>cameras = cams, point_3d = res_x (res i j k),
                        error = res_fun (res i j k), source_point_idxs = [i, j, k],
                        reprojected_points_2d = []\<rparr>.
                      i \<leftarrow> [0..<length v0], j \<leftarrow> [0..<length v1], k \<leftarrow> [0..<length v2]]
         in point_key_combinations [v0, v1, v2] =
              [[i, j, k]. i \<leftarrow> [0..<length v0], j \<leftarrow> [0..<length v1], k \<leftarrow> [0..<length v2]]
          \<and> length (point_key_combinations [v0, v1, v2]) = length v0 * length v1 * length v2
          \<and> solve_combinations minimize cams [v0, v1, v2] start =
              Inr (res_3d, foldl py_min Infinity (map error res_3d))
          \<and> length res_3d = length v0 * length v1 * length v2
          \<and> triangulate minimize [v0, v1, v2] cams x0 matching_threshold =
              (if filter (\<lambda>r. below matching_threshold (error r)) res_3d = []
               then Inl (ZeroPointsError (foldl py_min Infinity (map error res_3d))
                           matching_threshold)
               else collect (map (reproject (get_camera_model_triplet cams))
                      (sort_key error
                         (filter (\<lambda>r. below matching_threshold (error r)) res_3d))))"
proof -
  let ?C = "all_candidates minimize cams [v0, v1, v2] (initial_guess x0)"
  have v: "length [v0, v1, v2] = 3"
    "list_all (list_all (\<lambda>pts. length pts = 2)) [v0, v1, v2]"
    using assms(1-3) by simp_all
  have 1: "point_key_combinations [v0, v1, v2] =
      [[i, j, k]. i \<leftarrow> [0..<length v0], j \<leftarrow> [0..<length v1], k \<leftarrow> [0..<length v2]]"
    by (rule point_key_combinations3)
  have 2: "length (point_key_combinations [v0, v1, v2]) = length v0 * length v1 * length v2"
    by (rule length_point_key_combinations3)
  have 3: "solve_combinations minimize cams [v0, v1, v2] (initial_guess x0) =
      Inr (?C, foldl py_min Infinity (map error ?C))"
    by (rule solve_combinations_defined[OF assms(5) initial_guess_length[OF assms(4)]])
  have 4: "length ?C = length v0 * length v1 * length v2"
    by (simp only: all_candidates_def length_map 2)
  have 5: "triangulate minimize [v0, v1, v2] cams x0 matching_threshold =
      (if filter (\<lambda>r. below matching_threshold (error r)) ?C = []
       then Inl (ZeroPointsError (foldl py_min Infinity (map error ?C)) matching_threshold)
       else collect (map (reproject (get_camera_model_triplet cams))
              (sort_key error (filter (\<lambda>r. below matching_threshold (error r)) ?C))))"
    by (rule triangulate_defined[OF v assms(4,5)])
  have "point_key_combinations [v0, v1, v2] =
          [[i, j, k]. i \<leftarrow> [0..<length v0], j \<leftarrow> [0..<length v1], k \<leftarrow> [0..<length v2]]
      \<and> length (point_key_combinations [v0, v1, v2]) = length v0 * length v1 * length v2
      \<and> solve_combinations minimize cams [v0, v1, v2] (initial_guess x0) =
          Inr (?C, foldl py_min Infinity (map error ?C))
      \<and> length ?C = length v0 * length v1 * length v2
      \<and> triangulate minimize [v0, v1, v2] cams x0 matching_threshold =
          (if filter (\<lambda>r. below matching_threshold (error r)) ?C = []
           then Inl (ZeroPointsError (foldl py_min Infinity (map error ?C)) matching_threshold)
           else collect (map (reproject (get_camera_model_triplet cams))
                  (sort_key error (filter (\<lambda>r. below matching_threshold (error r)) ?C))))"
    by (intro conjI) (rule 1 2 3 4 5)+
  then show ?thesis unfolding Let_def all_candidates3 .
qed

theorem triangulate_candidates_witness:
  "list_all (\<lambda>pts. length pts = 2) [[0, 0], [3, 0 :: real]]
   \<and> list_all (\<lambda>pts. length pts = 2) [[0, 0], [0, 4], [4, 0 :: real]]
   \<and> list_all (\<lambda>pts. length pts = 2) [[0, 0 :: real]]
   \<and> calibrated example_cameras
   \<and> point_key_combinations six_points =
       [[0, 0, 0], [0, 1, 0], [0, 2, 0], [1, 0, 0], [1, 1, 0], [1, 2, 0]]
   \<and> solve_combinations stay example_cameras six_points [0, 0, 1] =
       Inr ([\<lparr>cameras = example_cameras, point_3d = [0, 0, 1], error = Some 0,
               source_point_idxs = [0, 0, 0], reprojected_points_2d = []\<rparr>,
             \<lparr>cameras = example_cameras, point_3d = [0, 0, 1], error = Some 4,
               source_point_idxs = [0, 1, 0], reprojected_points_2d = []\<rparr>,
             \<lparr>cameras = example_cameras, point_3d = [0, 0, 1], error = Some 4,
               source_point_idxs = [0, 2, 0], reprojected_points_2d = []\<rparr>,
             \<lparr>cameras = example_cameras, point_3d = [0, 0, 1], error = Some 3,
               source_point_idxs = [1, 0, 0], reprojected_points_2d = []\<rparr>,
             \<lparr>cameras = example_cameras, point_3d = [0, 0, 1], error = Some 5,
               source_point_idxs = [1, 1, 0], reprojected_points_2d = []\<rparr>,
             \<lparr>cameras = example_cameras, point_3d = [0, 0, 1], error = Some 5,
               source_point_idxs = [1, 2, 0], reprojected_points_2d = []\<rparr>],
            Finite 0)
   \<and> triangulate stay six_points example_cameras (Some [0, 0, 1]) (9 / 2) =
       Inr [\<lparr>cameras = example_cameras, point_3d = [0, 0, 1], error = Some 0,
             source_point_idxs = [0, 0, 0],
             reprojected_points_2d = [Pixel [0, 0], Pixel [0, 0], Pixel [0, 0]]\<rparr>,
            \<lparr>cameras = example_cameras, point_3d = [0, 0, 1], error = Some 3,
             source_point_idxs = [1, 0, 0],
             reprojected_points_2d = [Pixel [0, 0], Pixel [0, 0], Pixel [0, 0]]\<rparr>,
            \<lparr>cameras = example_cameras, point_3d = [0, 0, 1], error = Some 4,
             source_point_idxs = [0, 1, 0],
             reprojected_points_2d = [Pixel [0, 0], Pixel [0, 0], Pixel [0, 0]]\<rparr>,
            \<lparr>cameras = example_cameras, point_3d = [0, 0, 1], error = Some 4,
             source_point_idxs = [0, 2, 0],
             reprojected_points_2d = [Pixel [0, 0], Pixel [0, 0], Pixel [0, 0]]\<rparr>]"
proof -
  have h: "list_all (\<lambda>pts. length pts = 2) [[0, 0], [3, 0 :: real]]"
    "list_all (\<lambda>pts. length pts = 2) [[0, 0], [0, 4], [4, 0 :: real]]"
    "list_all (\<lambda>pts. length pts = 2) [[0, 0 :: real]]"
    by simp_all
  note T = triangulate_candidates[OF h start_valid example_calibrated,
      where minimize = stay and matching_threshold = "9 / 2", of 0 0 1,
      unfolded Let_def start_guess, folded six_points_def]
  from T have 1: "point_key_combinations six_points =
       [[0, 0, 0], [0, 1, 0], [0, 2, 0], [1, 0, 0], [1, 1, 0], [1, 2, 0]]"
    by (simp add: upt_rec)
  from T have 2: "solve_combinations stay example_cameras six_points [0, 0, 1] =
       Inr ([\<lparr>cameras = example_cameras, point_3d = [0, 0, 1], error = Some 0,
               source_point_idxs = [0, 0, 0], reprojected_points_2d = []\<rparr>,
             \<lparr>cameras = example_cameras, point_3d = [0, 0, 1], error = Some 4,
               source_point_idxs = [0, 1, 0], reprojected_points_2d = []\<rparr>,
             \<lparr>cameras = example_cameras, point_3d = [0, 0, 1], error = Some 4,
               source_point_idxs = [0, 2, 0], reprojected_points_2d = []\<rparr>,
             \<lparr>cameras = example_cameras, point_3d = [0, 0, 1], error = Some 3,
               source_point_idxs = [1, 0, 0], reprojected_points_2d = []\<rparr>,
             \<lparr>cameras = example_cameras, point_3d = [0, 0, 1], error = Some 5,
               source_point_idxs = [1, 1, 0], reprojected_points_2d = []\<rparr>,
             \<lparr>cameras = example_cameras, point_3d = [0, 0, 1], error = Some 5,
               source_point_idxs = [1, 2, 0], reprojected_points_2d = []\<rparr>],
            Finite 0)"
    by (simp add: upt_rec stay_def example_f example_fields sqrt_values py_min_def)
  from T have 3: "triangulate stay six_points example_cameras (Some [0, 0, 1]) (9 / 2) =
       Inr [\<lparr>cameras = example_cameras, point_3d = [0, 0, 1], error = Some 0,
             source_point_idxs = [0, 0, 0],
             reprojected_points_2d = [Pixel [0, 0], Pixel [0, 0], Pixel [0, 0]]\<rparr>,
            \<lparr>cameras = example_cameras, point_3d = [0, 0, 1], error = Some 3,
             source_point_idxs = [1, 0, 0],
             reprojected_points_2d = [Pixel [0, 0], Pixel [0, 0], Pixel [0, 0]]\<rparr>,
            \<lparr>cameras = example_cameras, point_3d = [0, 0, 1], error = Some 4,
             source_point_idxs = [0, 1, 0],
             reprojected_points_2d = [Pixel [0, 0], Pixel [0, 0], Pixel [0, 0]]\<rparr>,
            \<lparr>cameras = example_cameras, point_3d = [0, 0, 1], error = Some 4,
             source_point_idxs = [0, 2, 0],
             reprojected_points_2d = [Pixel [0, 0], Pixel [0, 0], Pixel [0, 0]]\<rparr>]"
    by (simp add: upt_rec stay_def example_f example_fields sqrt_values below_def
        example_reproject)
  from h example_calibrated 1 2 3 show ?thesis by (intro conjI)
qed

text \<open>
  C2, as the code has it. A list returned by \<open>triangulate\<close> holds the candidates whose
  error is a number strictly below the threshold, sorted by error (those of equal error
  in the order of their combinations), each with its re-projected points attached: a
  candidate whose error equals the threshold is removed too. Every returned point has
  an error below the threshold, and the errors ascend along the list. And when the inputs
  pass the assertions, the triplet is calibrated, the minimizer returns points of three
  coordinates and at least one candidate is kept, \<open>triangulate\<close> returns such a list.
\<close>

theorem triangulate_returns_sorted_below_threshold:
  "(\<forall>rs. triangulate minimize image_points cams x0 matching_threshold = Inr rs \<longrightarrow>
      map (\<lambda>r. r\<lparr>reprojected_points_2d := []\<rparr>) rs =
        sort_key error (filter (\<lambda>r. below matching_threshold (error r))
          (all_candidates minimize cams image_points (initial_guess x0)))
      \<and> (\<exists>es. map error rs = map Some es \<and> sorted es
              \<and> list_all (\<lambda>e. e < matching_threshold) es))
   \<and> (length image_points = 3
      \<and> list_all (list_all (\<lambda>pts. length pts = 2)) image_points
      \<and> (case x0 of None \<Rightarrow> True | Some v \<Rightarrow> length v = 3)
      \<and> calibrated cams
      \<and> list_all (\<lambda>r. length (point_3d r) = 3)
           (all_candidates minimize cams image_points (initial_guess x0))
      \<and> filter (\<lambda>r. below matching_threshold (error r))
           (all_candidates minimize cams image_points (initial_guess x0)) \<noteq> []
      \<longrightarrow> (\<exists>rs. triangulate minimize image_points cams x0 matching_threshold = Inr rs))"
proof (intro conjI allI impI)
  fix rs
  assume r: "triangulate minimize image_points cams x0 matching_threshold = Inr rs"
  let ?cands = "all_candidates minimize cams image_points (initial_guess x0)"
  let ?kept = "sort_key error (filter (\<lambda>r. below matching_threshold (error r)) ?cands)"
  have c: "collect (map (reproject (get_camera_model_triplet cams)) ?kept) = Inr rs"
    by (rule triangulate_Inr[OF r])
  show "map (\<lambda>r. r\<lparr>reprojected_points_2d := []\<rparr>) rs = ?kept"
    using collect_reproject_strip[OF c]
      strip_sort_filter[OF all_candidates_unprojected,
        of "\<lambda>r. below matching_threshold (error r)"]
    by simp
  have e: "map error rs = map error ?kept"
    by (rule collect_reproject_errors[OF c])
  have s: "sorted (map error rs)" unfolding e by simp
  have "\<forall>x\<in>set (map error ?kept). below matching_threshold x" by auto
  then have b: "\<forall>x\<in>set (map error rs). below matching_threshold x" unfolding e .
  have "\<exists>es. map error rs = map Some es \<and> list_all (\<lambda>e. e < matching_threshold) es"
    by (rule below_all_Some[OF b])
  then obtain es where m: "map error rs = map Some es"
    and l: "list_all (\<lambda>e. e < matching_threshold) es" by blast
  from s m have "sorted es" by (simp add: sorted_map_Some)
  with m l show "\<exists>es. map error rs = map Some es \<and> sorted es
              \<and> list_all (\<lambda>e. e < matching_threshold) es"
    by blast
next
  assume "length image_points = 3
      \<and> list_all (list_all (\<lambda>pts. length pts = 2)) image_points
      \<and> (case x0 of None \<Rightarrow> True | Some v \<Rightarrow> length v = 3)
      \<and> calibrated cams
      \<and> list_all (\<lambda>r. length (point_3d r) = 3)
           (all_candidates minimize cams image_points (initial_guess x0))
      \<and> filter (\<lambda>r. below matching_threshold (error r))
           (all_candidates minimize cams image_points (initial_guess x0)) \<noteq> []"
  then show "\<exists>rs. triangulate minimize image_points cams x0 matching_threshold = Inr rs"
    using triangulate_returns by blast
qed

theorem triangulate_returns_sorted_below_threshold_witness:
  "length six_points = 3
   \<and> list_all (list_all (\<lambda>pts. length pts = 2)) six_points
   \<and> calibrated example_cameras
   \<and> list_all (\<lambda>r. length (point_3d r) = 3)
        (all_candidates stay example_cameras six_points (initial_guess (Some [0, 0, 1])))
   \<and> filter (\<lambda>r. below (9 / 2) (error r))
        (all_candidates stay example_cameras six_points (initial_guess (Some [0, 0, 1]))) \<noteq> []
   \<and> (\<exists>rs. triangulate stay six_points example_cameras (Some [0, 0, 1]) (9 / 2) = Inr rs
         \<and> map error rs = [Some 0, Some 3, Some 4, Some 4]
         \<and> map source_point_idxs rs = [[0, 0, 0], [1, 0, 0], [0, 1, 0], [0, 2, 0]])"
proof -
  note T = triangulate_returns_sorted_below_threshold[of stay six_points example_cameras
      "Some [0, 0, 1]" "9 / 2"]
  have k: "filter (\<lambda>r. below (9 / 2) (error r))
        (all_candidates stay example_cameras six_points (initial_guess (Some [0, 0, 1]))) \<noteq> []"
    by (simp add: start_guess six_all_candidates below_def)
  have sh: "list_all (\<lambda>r. length (point_3d r) = 3)
        (all_candidates stay example_cameras six_points (initial_guess (Some [0, 0, 1])))"
    by (simp add: start_guess six_all_candidates)
  from T six_valid start_valid[of 0 0 1] example_calibrated sh k
  obtain rs where
    r: "triangulate stay six_points example_cameras (Some [0, 0, 1]) (9 / 2) = Inr rs"
    by blast
  from T r have "map (\<lambda>r. r\<lparr>reprojected_points_2d := []\<rparr>) rs =
        sort_key error (filter (\<lambda>r. below (9 / 2) (error r))
          (all_candidates stay example_cameras six_points (initial_guess (Some [0, 0, 1]))))"
    by blast
  then have kept: "map (\<lambda>r. r\<lparr>reprojected_points_2d := []\<rparr>) rs =
       [\<lparr>cameras = example_cameras, point_3d = [0, 0, 1], error = Some 0,
         source_point_idxs = [0, 0, 0], reprojected_points_2d = []\<rparr>,
        \<lparr>cameras = example_cameras, point_3d = [0, 0, 1], error = Some 3,
         source_point_idxs = [1, 0, 0], reprojected_points_2d = []\<rparr>,
        \<lparr>cameras = example_cameras, point_3d = [0, 0, 1], error = Some 4,
         source_point_idxs = [0, 1, 0], reprojected_points_2d = []\<rparr>,
        \<lparr>cameras = example_cameras, point_3d = [0, 0, 1], error = Some 4,
         source_point_idxs = [0, 2, 0], reprojected_points_2d = []\<rparr>]"
    by (simp add: start_guess six_all_candidates below_def)
  have "map error rs = map error (map (\<lambda>r. r\<lparr>reprojected_points_2d := []\<rparr>) rs)"
    "map source_point_idxs rs
       = map source_point_idxs (map (\<lambda>r. r\<lparr>reprojected_points_2d := []\<rparr>) rs)"
    by simp_all
  then have e: "map error rs = [Some 0, Some 3, Some 4, Some 4]"
    and i: "map source_point_idxs rs = [[0, 0, 0], [1, 0, 0], [0, 1, 0], [0, 2, 0]]"
    unfolding kept by simp_all
  have "\<exists>rs. triangulate stay six_points example_cameras (Some [0, 0, 1]) (9 / 2) = Inr rs
         \<and> map error rs = [Some 0, Some 3, Some 4, Some 4]
         \<and> map source_point_idxs rs = [[0, 0, 0], [1, 0, 0], [0, 1, 0], [0, 2, 0]]"
    by (intro exI[of _ rs] conjI) (rule r e i)+
  then show ?thesis
    by (intro conjI) (rule six_valid example_calibrated sh k | assumption)+
qed

text \<open>
  C2, as the specification words it, does not hold. With the threshold 0 and the start
  point on the detections, the candidate of the first combination has the error 0: it
  does not exceed the threshold, so that the filter of the specification keeps it, and
  yet the code filters it out: nothing is returned, the error that reports zero points
  is raised.
\<close>

theorem triangulate_threshold_counterexample:
  "map error (spec_survivors 0
      (all_candidates stay example_cameras boundary_points [0, 0, 1])) = [Some 0]
   \<and> triangulate stay boundary_points example_cameras (Some [0, 0, 1]) 0 =
       Inl (ZeroPointsError (Finite 0) 0)"
  by (simp add: boundary_triangulate_zero boundary_all_candidates spec_survivors_def)

text \<open>
  C3. When the inputs pass the assertions, on a calibrated triplet, \<open>triangulate\<close> raises
  the error that reports zero points exactly when no candidate passes the threshold
  filter. The error then carries the threshold and the best error: the minimum of the
  candidates' errors that are numbers, and infinity when there is none (no candidate, or
  only errors that are \<open>nan\<close> or \<open>inf\<close>, which \<open>min\<close> leaves aside). An empty list is
  never returned.
\<close>

theorem triangulate_raises_iff_no_survivor:
  assumes "length image_points = 3"
    and "list_all (list_all (\<lambda>pts. length pts = 2)) image_points"
    and "case x0 of None \<Rightarrow> True | Some v \<Rightarrow> length v = 3"
    and "calibrated cams"
  shows "(filter (\<lambda>r. below matching_threshold (error r))
            (all_candidates minimize cams image_points (initial_guess x0)) = []
          \<longrightarrow> triangulate minimize image_points cams x0 matching_threshold =
                Inl (ZeroPointsError
                  (if finite_errors (all_candidates minimize cams image_points
                                       (initial_guess x0)) = []
                   then Infinity
                   else Finite (Min (set (finite_errors
                          (all_candidates minimize cams image_points (initial_guess x0))))))
                  matching_threshold))
       \<and> (filter (\<lambda>r. below matching_threshold (error r))
            (all_candidates minimize cams image_points (initial_guess x0)) \<noteq> []
          \<longrightarrow> (\<forall>b t. triangulate minimize image_points cams x0 matching_threshold
                        \<noteq> Inl (ZeroPointsError b t)))
       \<and> triangulate minimize image_points cams x0 matching_threshold \<noteq> Inr []"
proof -
  let ?C = "all_candidates minimize cams image_points (initial_guess x0)"
  let ?best = "foldl py_min Infinity (map error ?C)"
  let ?kept = "sort_key error (filter (\<lambda>r. below matching_threshold (error r)) ?C)"
  have best: "?best = (if finite_errors ?C = [] then Infinity
                       else Finite (Min (set (finite_errors ?C))))"
    by (rule best_error)
  have T: "triangulate minimize image_points cams x0 matching_threshold =
      (if filter (\<lambda>r. below matching_threshold (error r)) ?C = []
       then Inl (ZeroPointsError ?best matching_threshold)
       else collect (map (reproject (get_camera_model_triplet cams)) ?kept))"
    by (rule triangulate_defined[OF assms])
  have nonempty: "collect (map (reproject cm) ?kept) \<noteq> Inr []"
    if "filter (\<lambda>r. below matching_threshold (error r)) ?C \<noteq> []" for cm
  proof
    assume "collect (map (reproject cm) ?kept) = Inr []"
    from collect_length[OF this] have "?kept = []" by simp
    with that show False by (simp add: sort_key_Nil_iff)
  qed
  show ?thesis
    unfolding T best using collect_reproject_no_zero_points nonempty by auto
qed

theorem triangulate_raises_iff_no_survivor_witness:
  "length boundary_points = 3
   \<and> list_all (list_all (\<lambda>pts. length pts = 2)) boundary_points
   \<and> calibrated example_cameras
   \<and> triangulate stay boundary_points example_cameras (Some [0, 0, 0]) 1000 =
       Inl (ZeroPointsError Infinity 1000)
   \<and> triangulate stay boundary_points example_cameras (Some [0, 0, 1]) 0 =
       Inl (ZeroPointsError (Finite 0) 0)
   \<and> triangulate stay boundary_points example_cameras (Some [0, 0, 1]) 1
       \<noteq> Inl (ZeroPointsError (Finite 0) 1)
   \<and> triangulate stay boundary_points example_cameras (Some [0, 0, 1]) 1 \<noteq> Inr []"
proof -
  note Z = triangulate_raises_iff_no_survivor[OF boundary_valid start_valid[of 0 0 0]
      example_calibrated, where minimize = stay, unfolded start_guess]
  note T = triangulate_raises_iff_no_survivor[OF boundary_valid start_valid[of 0 0 1]
      example_calibrated, where minimize = stay, unfolded start_guess]
  from Z[where matching_threshold = 1000]
  have "triangulate stay boundary_points example_cameras (Some [0, 0, 0]) 1000 =
       Inl (ZeroPointsError Infinity 1000)"
    by (simp add: boundary_degenerate_candidates below_def finite_errors_def
        List.map_filter_simps)
  moreover from T[where matching_threshold = 0]
  have "triangulate stay boundary_points example_cameras (Some [0, 0, 1]) 0 =
       Inl (ZeroPointsError (Finite 0) 0)"
    by (simp add: boundary_all_candidates below_def finite_errors_def List.map_filter_simps)
  moreover from T[where matching_threshold = 1] have
    "triangulate stay boundary_points example_cameras (Some [0, 0, 1]) 1
       \<noteq> Inl (ZeroPointsError (Finite 0) 1)"
    "triangulate stay boundary_points example_cameras (Some [0, 0, 1]) 1 \<noteq> Inr []"
    by (simp_all add: boundary_all_candidates below_def)
  ultimately show ?thesis using boundary_valid example_calibrated by simp
qed

text \<open>
  C10. When one of the three views has no candidate point (and the inputs pass the
  assertions), \<open>triangulate\<close> returns nothing: there is no combination, no minimization
  is run, and the error that reports zero points is raised with infinity as the best
  error.
\<close>

theorem triangulate_empty_view:
  assumes "length image_points = 3"
    and "list_all (list_all (\<lambda>pts. length pts = 2)) image_points"
    and "case x0 of None \<Rightarrow> True | Some v \<Rightarrow> length v = 3"
    and "[] \<in> set image_points"
  shows "triangulate minimize image_points cams x0 matching_threshold
         = Inl (ZeroPointsError Infinity matching_threshold)"
proof -
  from assms(4) have "[] \<in> set (map (\<lambda>pts. [0..<length pts]) image_points)"
    by (force simp: image_iff)
  then have "point_key_combinations image_points = []"
    unfolding point_key_combinations_def by (rule itertools_product_empty)
  then have "solve_combinations minimize cams image_points (initial_guess x0)
             = Inr ([], Infinity)"
    by (simp add: solve_combinations_def)
  from triangulate_cases[OF assms(1-3) this, of matching_threshold]
  show ?thesis by simp
qed

theorem triangulate_empty_view_witness:
  "length empty_view_points = 3
   \<and> list_all (list_all (\<lambda>pts. length pts = 2)) empty_view_points
   \<and> [] \<in> set empty_view_points
   \<and> triangulate stay empty_view_points example_cameras None 1000
       = Inl (ZeroPointsError Infinity 1000)"
proof -
  have v: "length empty_view_points = 3"
    "list_all (list_all (\<lambda>pts. length pts = 2)) empty_view_points"
    and e: "[] \<in> set empty_view_points"
    by (simp_all add: empty_view_points_def)
  have x0: "case None :: real list option of None \<Rightarrow> True | Some v \<Rightarrow> length v = 3" by simp
  from triangulate_empty_view[OF v x0 e, of stay example_cameras 1000] v e
  show ?thesis by simp
qed

section \<open>The batched cameras\<close>

lemma shape_3_22:
  "(dim t = 3 \<and> shape t ! 1 = 3 \<and> shape t ! 2 = 22) \<longleftrightarrow> (\<exists>bs. shape t = [bs, 3, 22])"
proof
  assume a: "dim t = 3 \<and> shape t ! 1 = 3 \<and> shape t ! 2 = 22"
  then have "length (shape t) = 3" by (simp add: dim_def)
  then obtain x y z where "shape t = [x, y, z]"
    by (auto simp: eval_nat_numeral length_Suc_conv)
  with a show "\<exists>bs. shape t = [bs, 3, 22]" by simp
next
  assume "\<exists>bs. shape t = [bs, 3, 22]"
  then show "dim t = 3 \<and> shape t ! 1 = 3 \<and> shape t ! 2 = 22"
    by (auto simp: dim_def)
qed

lemma extract_coefficients_fails:
  assumes "\<not> (\<exists>bs. shape coefficients = [bs, 3, 22])"
  shows "extract_coefficients self coefficients = Inl AssertionError"
  using assms shape_3_22[of coefficients]
  by (auto simp: extract_coefficients_def N_CAM_COEFFICIENTS_def)

lemma forward_fails:
  assumes "\<not> (\<exists>bs. shape coefficients = [bs, 3, 22])"
  shows "forward self coefficients points = Inl AssertionError"
  by (simp add: forward_def extract_coefficients_fails[OF assms])

text \<open>
  C7. The unpacking, and with it the projection, fails with an assertion error whenever
  the coefficients have not the shape batch x 3 x 22 (so whenever the last dimension is
  not 22 or the camera dimension is not 3). When they have this shape, the unpacking
  succeeds: the buffers hold the focal lengths and the principal point (columns 0 to 3),
  the rotation (columns 4 to 12, row by row), the translation (13 to 15), the distortion
  (16 to 20) and the shift (21) of each camera, and the flag \<open>distort\<close> is unchanged.
\<close>

theorem extract_coefficients_shape:
  "(\<not> (\<exists>n. shape coefficients = [n, 3, 22]) \<longrightarrow>
       extract_coefficients self coefficients = Inl AssertionError
     \<and> forward self coefficients points = Inl AssertionError)
   \<and> (shape coefficients = [bs, 3, 22] \<longrightarrow>
       (\<exists>self'. extract_coefficients self coefficients = Inr self'
          \<and> distort self' = distort self
          \<and> shape (fx self') = [bs, 3, 1] \<and> shape (fy self') = [bs, 3, 1]
          \<and> shape (cx self') = [bs, 3, 1] \<and> shape (cy self') = [bs, 3, 1]
          \<and> shape (rotation self') = [bs, 3, 3, 3] \<and> shape (translation self') = [bs, 3, 3]
          \<and> shape (distortion self') = [bs, 3, 5] \<and> shape (shifts self') = [bs, 3]
          \<and> (\<forall>b c i j.
                elem (fx self') [b, c, 0] = elem coefficients [b, c, 0]
              \<and> elem (fy self') [b, c, 0] = elem coefficients [b, c, 1]
              \<and> elem (cx self') [b, c, 0] = elem coefficients [b, c, 2]
              \<and> elem (cy self') [b, c, 0] = elem coefficients [b, c, 3]
              \<and> elem (rotation self') [b, c, i, j] = elem coefficients [b, c, 4 + (3 * i + j)]
              \<and> elem (translation self') [b, c, i] = elem coefficients [b, c, 13 + i]
              \<and> elem (distortion self') [b, c, i] = elem coefficients [b, c, 16 + i]
              \<and> elem (shifts self') [b, c] = elem coefficients [b, c, 21])))"
proof (intro conjI impI)
  assume "\<not> (\<exists>n. shape coefficients = [n, 3, 22])"
  then show "extract_coefficients self coefficients = Inl AssertionError"
    by (rule extract_coefficients_fails)
next
  assume "\<not> (\<exists>n. shape coefficients = [n, 3, 22])"
  then show "forward self coefficients points = Inl AssertionError"
    by (rule forward_fails)
next
  assume sh: "shape coefficients = [bs, 3, 22]"
  then show "\<exists>self'. extract_coefficients self coefficients = Inr self'
          \<and> distort self' = distort self
          \<and> shape (fx self') = [bs, 3, 1] \<and> shape (fy self') = [bs, 3, 1]
          \<and> shape (cx self') = [bs, 3, 1] \<and> shape (cy self') = [bs, 3, 1]
          \<and> shape (rotation self') = [bs, 3, 3, 3] \<and> shape (translation self') = [bs, 3, 3]
          \<and> shape (distortion self') = [bs, 3, 5] \<and> shape (shifts self') = [bs, 3]
          \<and> (\<forall>b c i j.
                elem (fx self') [b, c, 0] = elem coefficients [b, c, 0]
              \<and> elem (fy self') [b, c, 0] = elem coefficients [b, c, 1]
              \<and> elem (cx self') [b, c, 0] = elem coefficients [b, c, 2]
              \<and> elem (cy self') [b, c, 0] = elem coefficients [b, c, 3]
              \<and> elem (rotation self') [b, c, i, j] = elem coefficients [b, c, 4 + (3 * i + j)]
              \<and> elem (translation self') [b, c, i] = elem coefficients [b, c, 13 + i]
              \<and> elem (distortion self') [b, c, i] = elem coefficients [b, c, 16 + i]
              \<and> elem (shifts self') [b, c] = elem coefficients [b, c, 21])"
    by (simp add: extract_coefficients_def N_CAM_COEFFICIENTS_def dim_def column_def Let_def)
qed

theorem extract_coefficients_shape_witness:
  "shape example_coefficients = [1, 3, 22]
   \<and> (\<exists>self'. extract_coefficients (DynamicCameras_init True) example_coefficients = Inr self'
        \<and> elem (fx self') [0, 1, 0] = 2 \<and> elem (shifts self') [0, 1] = 6
        \<and> elem (rotation self') [0, 1, 2, 2] = 1)
   \<and> \<not> (\<exists>n. shape short_coefficients = [n, 3, 22])
   \<and> extract_coefficients (DynamicCameras_init True) short_coefficients = Inl AssertionError
   \<and> forward (DynamicCameras_init True) short_coefficients example_points = Inl AssertionError"
proof -
  have sh: "shape example_coefficients = [1, 3, 22]"
    by (simp add: example_coefficients_def)
  have el: "elem example_coefficients [0, 1, 0] = 2" "elem example_coefficients [0, 1, 21] = 6"
    "elem example_coefficients [0, 1, 4 + (3 * 2 + 2)] = 1"
    by (simp_all add: example_coefficients_def)
  have short: "\<not> (\<exists>n. shape short_coefficients = [n, 3, 22])"
    by (simp add: short_coefficients_def)
  note T = extract_coefficients_shape[of _ "DynamicCameras_init True" example_points]
  from T[of example_coefficients 1] sh
  obtain self' where
    s: "extract_coefficients (DynamicCameras_init True) example_coefficients = Inr self'"
    and "\<forall>b c i j.
                elem (fx self') [b, c, 0] = elem example_coefficients [b, c, 0]
              \<and> elem (fy self') [b, c, 0] = elem example_coefficients [b, c, 1]
              \<and> elem (cx self') [b, c, 0] = elem example_coefficients [b, c, 2]
              \<and> elem (cy self') [b, c, 0] = elem example_coefficients [b, c, 3]
              \<and> elem (rotation self') [b, c, i, j] = elem example_coefficients [b, c, 4 + (3 * i + j)]
              \<and> elem (translation self') [b, c, i] = elem example_coefficients [b, c, 13 + i]
              \<and> elem (distortion self') [b, c, i] = elem example_coefficients [b, c, 16 + i]
              \<and> elem (shifts self') [b, c] = elem example_coefficients [b, c, 21]"
    by blast
  then have "elem (fx self') [0, 1, 0] = elem example_coefficients [0, 1, 0]"
    "elem (shifts self') [0, 1] = elem example_coefficients [0, 1, 21]"
    "elem (rotation self') [0, 1, 2, 2] = elem example_coefficients [0, 1, 4 + (3 * 2 + 2)]"
    by blast+
  with el s have 1: "\<exists>self'. extract_coefficients (DynamicCameras_init True) example_coefficients
        = Inr self'
        \<and> elem (fx self') [0, 1, 0] = 2 \<and> elem (shifts self') [0, 1] = 6
        \<and> elem (rotation self') [0, 1, 2, 2] = 1"
    by simp
  from T[of short_coefficients 0] short have
    2: "extract_coefficients (DynamicCameras_init True) short_coefficients = Inl AssertionError
      \<and> forward (DynamicCameras_init True) short_coefficients example_points = Inl AssertionError"
    by blast
  from sh 1 short 2 show ?thesis by blast
qed

lemma local_shifts_elem:
  "elem (local_shifts self points) [b, c, a] =
     (if c = 2 \<and> a = 1 then elem (shifts self) [bcast (shifts self) b, c]
      else if c = 1 \<and> a = 1 then - elem (shifts self) [bcast (shifts self) b, c]
      else if c = 0 \<and> a = 0 then elem (shifts self) [bcast (shifts self) b, c]
      else 0)"
  by (simp add: local_shifts_def setitem_def zeros_def Let_def)

lemma extract_coefficients_buffers:
  assumes "shape coefficients = [bs, 3, 22]"
  shows "\<exists>self'. extract_coefficients self coefficients = Inr self'
          \<and> distort self' = distort self
          \<and> shape (fx self') = [bs, 3, 1] \<and> shape (fy self') = [bs, 3, 1]
          \<and> shape (cx self') = [bs, 3, 1] \<and> shape (cy self') = [bs, 3, 1]
          \<and> shape (shifts self') = [bs, 3]
          \<and> (\<forall>b c. elem (fx self') [b, c, 0] = elem coefficients [b, c, 0]
              \<and> elem (fy self') [b, c, 0] = elem coefficients [b, c, 1]
              \<and> elem (cx self') [b, c, 0] = elem coefficients [b, c, 2]
              \<and> elem (cy self') [b, c, 0] = elem coefficients [b, c, 3]
              \<and> elem (shifts self') [b, c] = elem coefficients [b, c, 21])"
  using assms
  by (simp add: extract_coefficients_def N_CAM_COEFFICIENTS_def dim_def column_def Let_def)

lemma out_entry_plain:
  assumes "\<not> distort self" and "c < 3"
  shows "out_entry self points b c p 0 =
     (if xyz self points b c p 2 = 0 \<or> elem (fx self) [bcast (fx self) b, c, 0] = 0 then None
      else Some (elem (fx self) [bcast (fx self) b, c, 0]
                  * (xyz self points b c p 0 / xyz self points b c p 2
                     + (if c = 0 then elem (shifts self) [bcast (shifts self) b, c] else 0)
                       / elem (fx self) [bcast (fx self) b, c, 0])
                 + elem (cx self) [bcast (cx self) b, c, 0]))"
    and "out_entry self points b c p (Suc 0) =
     (if xyz self points b c p 2 = 0 \<or> elem (fy self) [bcast (fy self) b, c, 0] = 0 then None
      else Some (elem (fy self) [bcast (fy self) b, c, 0]
                  * (xyz self points b c p (Suc 0) / xyz self points b c p 2
                     + (if c = 1 then - elem (shifts self) [bcast (shifts self) b, c]
                        else if c = 2 then elem (shifts self) [bcast (shifts self) b, c]
                        else 0)
                       / elem (fy self) [bcast (fy self) b, c, 0])
                 + elem (cy self) [bcast (cy self) b, c, 0]))"
  using assms
  by (auto simp: out_entry_def x_shifted_def y_shifted_def x_projected_def y_projected_def
      float_div_def float_op_def local_shifts_elem Let_def)

lemma out_entry_distorted:
  assumes "distort self" and "c < 3"
  shows "out_entry self points b c p 0 =
     (if xyz self points b c p 2 = 0 \<or> elem (fx self) [bcast (fx self) b, c, 0] = 0
         \<or> elem (fy self) [bcast (fy self) b, c, 0] = 0 then None
      else Some (elem (fx self) [bcast (fx self) b, c, 0]
                  * fst (distorted self b c
                      (xyz self points b c p 0 / xyz self points b c p 2
                       + (if c = 0 then elem (shifts self) [bcast (shifts self) b, c] else 0)
                         / elem (fx self) [bcast (fx self) b, c, 0])
                      (xyz self points b c p (Suc 0) / xyz self points b c p 2
                       + (if c = 1 then - elem (shifts self) [bcast (shifts self) b, c]
                          else if c = 2 then elem (shifts self) [bcast (shifts self) b, c]
                          else 0)
                         / elem (fy self) [bcast (fy self) b, c, 0]))
                 + elem (cx self) [bcast (cx self) b, c, 0]))"
    and "out_entry self points b c p (Suc 0) =
     (if xyz self points b c p 2 = 0 \<or> elem (fx self) [bcast (fx self) b, c, 0] = 0
         \<or> elem (fy self) [bcast (fy self) b, c, 0] = 0 then None
      else Some (elem (fy self) [bcast (fy self) b, c, 0]
                  * snd (distorted self b c
                      (xyz self points b c p 0 / xyz self points b c p 2
                       + (if c = 0 then elem (shifts self) [bcast (shifts self) b, c] else 0)
                         / elem (fx self) [bcast (fx self) b, c, 0])
                      (xyz self points b c p (Suc 0) / xyz self points b c p 2
                       + (if c = 1 then - elem (shifts self) [bcast (shifts self) b, c]
                          else if c = 2 then elem (shifts self) [bcast (shifts self) b, c]
                          else 0)
                         / elem (fy self) [bcast (fy self) b, c, 0]))
                 + elem (cy self) [bcast (cy self) b, c, 0]))"
  using assms
  by (auto simp: out_entry_def x_shifted_def y_shifted_def x_projected_def y_projected_def
      float_div_def float_op_def local_shifts_elem Let_def)

lemma example_module_extracted:
  "extract_coefficients (DynamicCameras_init True) example_coefficients = Inr example_module"
  by (simp add: example_module_def extract_coefficients_def example_coefficients_def dim_def
      N_CAM_COEFFICIENTS_def)

lemma example_module_buffers:
  "elem (shifts example_module) [0, c] = 6"
  "elem (fx example_module) [0, c, 0] = 2"
  "elem (fy example_module) [0, c, 0] = 3"
  "shape (shifts example_module) = [1, 3]"
  "shape (fx example_module) = [1, 3, 1]"
  "shape (fy example_module) = [1, 3, 1]"
  by (simp_all add: example_module_def extract_coefficients_def example_coefficients_def dim_def
      N_CAM_COEFFICIENTS_def column_def)

lemma example_module_xyz:
  "xyz example_module example_points 0 c 0 0 = 0"
  "xyz example_module example_points 0 c 0 (Suc 0) = 0"
  "xyz example_module example_points 0 c 0 2 = 2"
  by (simp_all add: xyz_def example_module_def extract_coefficients_def example_coefficients_def
      dim_def N_CAM_COEFFICIENTS_def example_points_def bcast_def upt_rec)

text \<open>
  C6. \<open>forward\<close> on coefficients of shape \<open>bs x 3 x 22\<close> and points of shape
  \<open>n x P x 3\<close>, where \<open>bs\<close> is \<open>n\<close> or 1: it returns an output of shape
  \<open>n x 3 x P x 2\<close>, and in the entry of batch item \<open>b\<close>, camera \<open>c\<close> and point \<open>p\<close> the
  term added to the normalised coordinates is the shift coefficient \<open>s\<close> (column 21)
  divided by the focal length, with this sign: \<open>+ s / fx\<close> on \<open>x\<close> for camera 0,
  \<open>- s / fy\<close> on \<open>y\<close> for camera 1 and \<open>+ s / fy\<close> on \<open>y\<close> for camera 2; the other
  coordinate of each camera receives the term zero. The entry is then the distortion (when
  the module distorts) of these coordinates, scaled by the focal lengths and offset by the
  principal point. Where the depth or a focal length is zero, the entry is \<open>inf\<close> or
  \<open>nan\<close>.
\<close>

theorem forward_shift_signs:
  assumes "shape coefficients = [bs, 3, 22]"
    and "shape points = [n, P, 3]"
    and "bs = n \<or> bs = 1"
  shows "\<exists>self' out.
     forward self coefficients points = Inr (self', out)
   \<and> extract_coefficients self coefficients = Inr self'
   \<and> out_shape out = [n, 3, P, 2]
   \<and> (\<forall>b<n. \<forall>c<3. \<forall>p<P.
        let a = (if bs = 1 then 0 else b);
            X = xyz self' points b c p 0;
            Y = xyz self' points b c p 1;
            Z = xyz self' points b c p 2;
            focal_x = elem coefficients [a, c, 0];
            focal_y = elem coefficients [a, c, 1];
            centre_x = elem coefficients [a, c, 2];
            centre_y = elem coefficients [a, c, 3];
            s = elem coefficients [a, c, 21];
            x = X / Z + (if c = 0 then s else 0) / focal_x;
            y = Y / Z + (if c = 1 then - s else if c = 2 then s else 0) / focal_y;
            u = out_elem out [b, c, p, 0];
            v = out_elem out [b, c, p, 1]
        in if distort self
           then (if Z = 0 \<or> focal_x = 0 \<or> focal_y = 0 then u = None \<and> v = None
                 else u = Some (focal_x * fst (distorted self' b c x y) + centre_x)
                    \<and> v = Some (focal_y * snd (distorted self' b c x y) + centre_y))
           else u = (if Z = 0 \<or> focal_x = 0 then None else Some (focal_x * x + centre_x))
              \<and> v = (if Z = 0 \<or> focal_y = 0 then None else Some (focal_y * y + centre_y)))"
proof -
  from extract_coefficients_buffers[OF assms(1), of self] obtain self' where
    e: "extract_coefficients self coefficients = Inr self'"
    and d: "distort self' = distort self"
    and sh: "shape (fx self') = [bs, 3, 1]" "shape (fy self') = [bs, 3, 1]"
      "shape (cx self') = [bs, 3, 1]" "shape (cy self') = [bs, 3, 1]"
      "shape (shifts self') = [bs, 3]"
    and el: "\<And>b c. elem (fx self') [b, c, 0] = elem coefficients [b, c, 0]"
      "\<And>b c. elem (fy self') [b, c, 0] = elem coefficients [b, c, 1]"
      "\<And>b c. elem (cx self') [b, c, 0] = elem coefficients [b, c, 2]"
      "\<And>b c. elem (cy self') [b, c, 0] = elem coefficients [b, c, 3]"
      "\<And>b c. elem (shifts self') [b, c] = elem coefficients [b, c, 21]"
    by blast
  let ?out = "\<lparr>out_shape = [n, 3, P, 2],
               out_elem = (\<lambda>idx. case idx of
                             [b, c, p, i] \<Rightarrow> out_entry self' points b c p i
                           | _ \<Rightarrow> None)\<rparr>"
  have f: "forward self coefficients points = Inr (self', ?out)"
    using assms by (auto simp: forward_def e dim_def)
  have bc: "bcast (fx self') b = (if bs = 1 then 0 else b)"
    "bcast (fy self') b = (if bs = 1 then 0 else b)"
    "bcast (cx self') b = (if bs = 1 then 0 else b)"
    "bcast (cy self') b = (if bs = 1 then 0 else b)"
    "bcast (shifts self') b = (if bs = 1 then 0 else b)" for b
    by (simp_all add: bcast_def sh)
  have entries: "let a = (if bs = 1 then 0 else b);
            X = xyz self' points b c p 0;
            Y = xyz self' points b c p 1;
            Z = xyz self' points b c p 2;
            focal_x = elem coefficients [a, c, 0];
            focal_y = elem coefficients [a, c, 1];
            centre_x = elem coefficients [a, c, 2];
            centre_y = elem coefficients [a, c, 3];
            s = elem coefficients [a, c, 21];
            x = X / Z + (if c = 0 then s else 0) / focal_x;
            y = Y / Z + (if c = 1 then - s else if c = 2 then s else 0) / focal_y;
            u = out_elem ?out [b, c, p, 0];
            v = out_elem ?out [b, c, p, 1]
        in if distort self
           then (if Z = 0 \<or> focal_x = 0 \<or> focal_y = 0 then u = None \<and> v = None
                 else u = Some (focal_x * fst (distorted self' b c x y) + centre_x)
                    \<and> v = Some (focal_y * snd (distorted self' b c x y) + centre_y))
           else u = (if Z = 0 \<or> focal_x = 0 then None else Some (focal_x * x + centre_x))
              \<and> v = (if Z = 0 \<or> focal_y = 0 then None else Some (focal_y * y + centre_y))"
    if c: "c < 3" for b c p
  proof (cases "distort self")
    case True
    then have "distort self'" by (simp add: d)
    from out_entry_distorted[OF this c, of points b p] True show ?thesis
      by (simp add: Let_def bc el)
  next
    case False
    then have "\<not> distort self'" by (simp add: d)
    from out_entry_plain[OF this c, of points b p] False show ?thesis
      by (simp add: Let_def bc el)
  qed
  show ?thesis
    by (intro exI[of _ self'] exI[of _ ?out] conjI allI impI f e entries) simp_all
qed

lemma example_module_distorted: "distorted example_module b c x y = (x, y)"
  by (simp add: distorted_def example_module_def extract_coefficients_def
      example_coefficients_def dim_def N_CAM_COEFFICIENTS_def Let_def)

lemma example_coefficients_elem:
  "elem example_coefficients [b, c, 0] = 2"
  "elem example_coefficients [b, c, Suc 0] = 3"
  "elem example_coefficients [b, c, 2] = 0"
  "elem example_coefficients [b, c, 3] = 0"
  "elem example_coefficients [b, c, 21] = 6"
  by (simp_all add: example_coefficients_def)

theorem forward_shift_signs_witness:
  "shape example_coefficients = [1, 3, 22] \<and> shape example_points = [1, 1, 3]
   \<and> (\<exists>self' out.
        forward (DynamicCameras_init True) example_coefficients example_points
          = Inr (self', out)
        \<and> out_shape out = [1, 3, 1, 2]
        \<and> out_elem out [0, 0, 0, 0] = Some 6 \<and> out_elem out [0, 0, 0, 1] = Some 0
        \<and> out_elem out [0, 1, 0, 0] = Some 0 \<and> out_elem out [0, 1, 0, 1] = Some (- 6)
        \<and> out_elem out [0, 2, 0, 0] = Some 0 \<and> out_elem out [0, 2, 0, 1] = Some 6)"
proof -
  have sh: "shape example_coefficients = [1, 3, 22]" "shape example_points = [1, 1, 3]"
    by (simp_all add: example_coefficients_def example_points_def)
  have d: "distort (DynamicCameras_init True)" by (simp add: DynamicCameras_init_def)
  from forward_shift_signs[OF sh, of "DynamicCameras_init True"] obtain self' out where
    f: "forward (DynamicCameras_init True) example_coefficients example_points
          = Inr (self', out)"
    and e: "extract_coefficients (DynamicCameras_init True) example_coefficients = Inr self'"
    and os: "out_shape out = [1, 3, 1, 2]"
    and en: "\<forall>b<1. \<forall>c<3. \<forall>p<1.
        let a = (if (1 :: nat) = 1 then 0 else b);
            X = xyz self' example_points b c p 0;
            Y = xyz self' example_points b c p 1;
            Z = xyz self' example_points b c p 2;
            focal_x = elem example_coefficients [a, c, 0];
            focal_y = elem example_coefficients [a, c, 1];
            centre_x = elem example_coefficients [a, c, 2];
            centre_y = elem example_coefficients [a, c, 3];
            s = elem example_coefficients [a, c, 21];
            x = X / Z + (if c = 0 then s else 0) / focal_x;
            y = Y / Z + (if c = 1 then - s else if c = 2 then s else 0) / focal_y;
            u = out_elem out [b, c, p, 0];
            v = out_elem out [b, c, p, 1]
        in if distort (DynamicCameras_init True)
           then (if Z = 0 \<or> focal_x = 0 \<or> focal_y = 0 then u = None \<and> v = None
                 else u = Some (focal_x * fst (distorted self' b c x y) + centre_x)
                    \<and> v = Some (focal_y * snd (distorted self' b c x y) + centre_y))
           else u = (if Z = 0 \<or> focal_x = 0 then None else Some (focal_x * x + centre_x))
              \<and> v = (if Z = 0 \<or> focal_y = 0 then None else Some (focal_y * y + centre_y))"
    by blast
  from e have m: "self' = example_module" by (simp add: example_module_extracted)
  from en[rule_format, of 0 0 0] have c0:
    "out_elem out [0, 0, 0, 0] = Some 6 \<and> out_elem out [0, 0, 0, 1] = Some 0"
    by (simp add: Let_def d m example_module_xyz example_coefficients_elem
        example_module_distorted)
  from en[rule_format, of 0 1 0] have c1:
    "out_elem out [0, 1, 0, 0] = Some 0 \<and> out_elem out [0, 1, 0, 1] = Some (- 6)"
    by (simp add: Let_def d m example_module_xyz example_coefficients_elem
        example_module_distorted)
  from en[rule_format, of 0 2 0] have c2:
    "out_elem out [0, 2, 0, 0] = Some 0 \<and> out_elem out [0, 2, 0, 1] = Some 6"
    by (simp add: Let_def d m example_module_xyz example_coefficients_elem
        example_module_distorted)
  have "\<exists>self' out.
        forward (DynamicCameras_init True) example_coefficients example_points
          = Inr (self', out)
        \<and> out_shape out = [1, 3, 1, 2]
        \<and> out_elem out [0, 0, 0, 0] = Some 6 \<and> out_elem out [0, 0, 0, 1] = Some 0
        \<and> out_elem out [0, 1, 0, 0] = Some 0 \<and> out_elem out [0, 1, 0, 1] = Some (- 6)
        \<and> out_elem out [0, 2, 0, 0] = Some 0 \<and> out_elem out [0, 2, 0, 1] = Some 6"
    using f os c0 c1 c2 by (intro exI[of _ self'] exI[of _ out]) simp
  with sh show ?thesis by simp
qed

section \<open>The tumble-run approximation\<close>

lemma accept_peaks_subset:
  "set (accept_peaks d acc cs) \<subseteq> set acc \<union> set cs"
proof (induction cs arbitrary: acc)
  case Nil
  then show ?case by simp
next
  case (Cons c cs)
  show ?case
    using Cons.IH[of "acc @ [c]"] Cons.IH[of acc] by (auto split: if_splits)
qed

lemma local_peaks_range: "i \<in> set (local_peaks k) \<Longrightarrow> 1 \<le> i \<and> i < length k - 1"
  by (auto simp: local_peaks_def)

lemma find_peaks_range:
  assumes "i \<in> set (find_peaks k d)"
  shows "1 \<le> i \<and> i < length k - 1"
proof -
  from assms have "i \<in> set (accept_peaks d [] (rev (sort_key (\<lambda>i. k ! i) (local_peaks k))))"
    by (simp add: find_peaks_def)
  with accept_peaks_subset[of d "[]"] have "i \<in> set (local_peaks k)" by fastforce
  then show ?thesis by (rule local_peaks_range)
qed

lemma sorted_find_peaks: "sorted (find_peaks k d)"
  by (simp add: find_peaks_def)

lemma length_consecutive: "length (consecutive xs) = length xs - 1"
  by (induction xs rule: consecutive.induct) simp_all

lemma sum_consecutive:
  "sorted xs \<Longrightarrow> xs \<noteq> [] \<Longrightarrow>
   sum_list (map (\<lambda>(a, b). b - a) (consecutive xs)) = last xs - hd (xs :: nat list)"
proof (induction xs rule: consecutive.induct)
  case (1 a b xs)
  then have "a \<le> b" "b \<le> last (b # xs)" by auto
  with 1 show ?case by simp
qed simp_all

lemma approximate_nonempty:
  assumes "X \<noteq> []"
  shows "vertices (approximate X ts) = X ! 0 # map (\<lambda>i. X ! i) ts @ [X ! (length X - 1)]"
    and "tumble_idxs (approximate X ts) = ts"
    and "run_durations (approximate X ts) = map (\<lambda>(a, b). b - a) (consecutive ts)"
  using assms by (simp_all add: approximate_def Let_def vertex_idxs_def)

lemma get_approximate_Inr:
  assumes "get_approximate X k distance = Inr a"
  shows "length X = length k" and "0 < distance"
    and "a = approximate X (find_peaks k (nat distance))"
  using assms by (auto simp: get_approximate_def split: if_splits)

lemma peaks_span:
  assumes "ts \<noteq> []" and "\<forall>i\<in>set ts. 1 \<le> i \<and> i < n - 1"
  shows "last ts - hd ts + 3 \<le> (n :: nat)"
proof -
  from assms have "1 \<le> hd ts" "hd ts < n - 1" "1 \<le> last ts" "last ts < n - 1"
    by simp_all
  then show ?thesis by arith
qed

text \<open>
  C8, as the model has it. For a trajectory that is not empty, the vertices are the
  first point, the positions at the accepted tumble indices and the last point: their
  number is the tumble count plus two. The run durations are the steps between
  consecutive tumbles: there is one less than there are tumbles, and they add up to the
  steps between the first tumble and the last, which is less than the number of steps of
  the trajectory.
\<close>

theorem get_approximate_counts:
  assumes "get_approximate X k distance = Inr a" and "X \<noteq> []"
  shows "tumble_idxs a = find_peaks k (nat distance)
       \<and> vertices a = X ! 0 # map (\<lambda>i. X ! i) (tumble_idxs a) @ [X ! (length X - 1)]
       \<and> length (vertices a) = length (tumble_idxs a) + 2
       \<and> run_durations a = map (\<lambda>(i, j). j - i) (consecutive (tumble_idxs a))
       \<and> length (run_durations a) = length (tumble_idxs a) - 1
       \<and> sum_list (run_durations a)
           = (if tumble_idxs a = [] then 0 else last (tumble_idxs a) - hd (tumble_idxs a))
       \<and> sum_list (run_durations a) < length X
       \<and> (1 < length X \<longrightarrow> sum_list (run_durations a) < length X - 1)"
proof -
  let ?ts = "find_peaks k (nat distance)"
  from get_approximate_Inr[OF assms(1)] have len: "length X = length k"
    and a: "a = approximate X ?ts" by simp_all
  have t: "tumble_idxs a = ?ts" and v: "vertices a
      = X ! 0 # map (\<lambda>i. X ! i) (tumble_idxs a) @ [X ! (length X - 1)]"
    and r: "run_durations a = map (\<lambda>(i, j). j - i) (consecutive (tumble_idxs a))"
    unfolding a using approximate_nonempty[OF assms(2), of ?ts] by simp_all
  have lv: "length (vertices a) = length (tumble_idxs a) + 2"
    unfolding v by simp
  have lr: "length (run_durations a) = length (tumble_idxs a) - 1"
    by (simp add: r length_consecutive)
  have rng: "\<forall>i\<in>set ?ts. 1 \<le> i \<and> i < length X - 1"
    using find_peaks_range[of _ k "nat distance"] len by simp
  have sum: "sum_list (run_durations a)
           = (if tumble_idxs a = [] then 0 else last (tumble_idxs a) - hd (tumble_idxs a))"
  proof (cases "?ts = []")
    case True
    then show ?thesis by (simp add: r t)
  next
    case False
    from sum_consecutive[OF sorted_find_peaks False] False show ?thesis
      by (simp add: r t)
  qed
  have span: "tumble_idxs a \<noteq> [] \<Longrightarrow> last (tumble_idxs a) - hd (tumble_idxs a) + 3 \<le> length X"
    unfolding t by (rule peaks_span[OF _ rng])
  from assms(2) have pos: "0 < length X" by simp
  have less: "sum_list (run_durations a) < length X"
    using span pos unfolding sum by (cases "tumble_idxs a = []") auto
  have less': "1 < length X \<longrightarrow> sum_list (run_durations a) < length X - 1"
    using span unfolding sum by (cases "tumble_idxs a = []") auto
  show ?thesis
    by (intro conjI) (rule t v lv r lr sum less less')+
qed

lemma wave_peaks: "find_peaks wave_curvature 2 = [2, 4]"
  "find_peaks wave_curvature 3 = [2]" "find_peaks wave_curvature 6 = [2]"
  by (simp_all add: find_peaks_def local_peaks_def wave_curvature_def upt_rec steps_apart_def)

lemma wave_lengths: "length wave = 7" "length wave_curvature = 7"
  by (simp_all add: wave_def wave_curvature_def)

lemma wave_approximate:
  "get_approximate wave wave_curvature 2 = Inr (approximate wave [2, 4])"
  by (simp add: get_approximate_def wave_peaks wave_lengths)

theorem get_approximate_counts_witness:
  "get_approximate wave wave_curvature 2 = Inr (approximate wave [2, 4])
   \<and> wave \<noteq> [] \<and> 1 < length wave
   \<and> tumble_idxs (approximate wave [2, 4]) = [2, 4]
   \<and> vertices (approximate wave [2, 4]) = [[0, 0, 0], [2, 2, 0], [4, 0, 0], [6, 2, 0]]
   \<and> run_durations (approximate wave [2, 4]) = [2]
   \<and> sum_list (run_durations (approximate wave [2, 4])) < 6"
proof -
  have ne: "wave \<noteq> []" by (simp add: wave_def)
  have l: "length wave - 1 = 6" "wave ! 0 = [0, 0, 0]" "wave ! 2 = [2, 2, 0]"
    "wave ! 4 = [4, 0, 0]" "wave ! 6 = [6, 2, 0]"
    by (simp_all add: wave_def)
  note T = get_approximate_counts[OF wave_approximate ne]
  from T have t: "tumble_idxs (approximate wave [2, 4]) = [2, 4]"
    by (simp add: wave_peaks)
  from T have "vertices (approximate wave [2, 4])
      = wave ! 0 # map (\<lambda>i. wave ! i) (tumble_idxs (approximate wave [2, 4]))
          @ [wave ! (length wave - 1)]"
    by (rule conjunct1[OF conjunct2])
  then have v: "vertices (approximate wave [2, 4])
      = [[0, 0, 0], [2, 2, 0], [4, 0, 0], [6, 2, 0]]"
    unfolding t l by (simp add: l)
  from T have "run_durations (approximate wave [2, 4])
      = map (\<lambda>(i, j). j - i) (consecutive (tumble_idxs (approximate wave [2, 4])))"
    by blast
  then have r: "run_durations (approximate wave [2, 4]) = [2]"
    unfolding t by simp
  from T have "1 < length wave
      \<longrightarrow> sum_list (run_durations (approximate wave [2, 4])) < length wave - 1"
    by blast
  then have s: "sum_list (run_durations (approximate wave [2, 4])) < 6"
    by (simp add: wave_lengths)
  from wave_approximate ne t v r s show ?thesis by (simp add: wave_lengths)
qed

text \<open>
  C8, as the specification words it, does not hold. The approximation of a trajectory of
  seven points (six steps) with two tumbles has four vertices, not three, and one run
  between the two tumbles, of two steps: the run durations add up neither to the number
  of points nor to the number of steps of the trajectory.
\<close>

theorem get_approximate_vertex_count_counterexample:
  "get_approximate wave wave_curvature 2 = Inr (approximate wave [2, 4])
   \<and> length wave = 7
   \<and> length (tumble_idxs (approximate wave [2, 4])) = 2
   \<and> length (vertices (approximate wave [2, 4])) = 4
   \<and> sum_list (run_durations (approximate wave [2, 4])) = 2"
  by (simp add: wave_approximate) (simp add: approximate_def wave_def vertex_idxs_def)

section \<open>The search for an approximation\<close>

lemma evaluate_ok:
  assumes "length X = length k" and "0 < d"
  shows "evaluate X k d =
           Inr \<lparr>approx = approximate X (find_peaks k (nat d)), cand_distance = d,
                cand_error = mse X (X_approx (approximate X (find_peaks k (nat d))))\<rparr>"
  using assms by (simp add: evaluate_def get_approximate_def)

lemma evaluate_Inr:
  assumes "evaluate X k d = Inr c"
  shows "cand_distance c = d" and "get_approximate X k d = Inr (approx c)"
    and "cand_error c = mse X (X_approx (approx c))"
  using assms by (auto simp: evaluate_def split: sum.splits)

lemma evaluate_error:
  assumes "evaluate X k d = Inr c" and "X \<noteq> []"
  shows "\<exists>e. cand_error c = Some e"
  using assms by (auto simp: evaluate_def mse_def split: sum.splits)

lemma search_returns:
  assumes "length X = length k" and "1 \<le> lo" and "1 \<le> hi"
    and "evaluate X k (cand_distance cur) = Inr cur" and "1 \<le> cand_distance cur"
    and "evaluate X k (cand_distance best) = Inr best" and "1 \<le> cand_distance best"
  shows "\<exists>c converged. search X k error_limit tol n lo hi cur best = Inr (c, converged)
           \<and> evaluate X k (cand_distance c) = Inr c \<and> 1 \<le> cand_distance c
           \<and> (converged \<longrightarrow> within_tolerance tol (deviation error_limit c))"
  using assms
proof (induction n arbitrary: lo hi cur best)
  case 0
  then show ?case by auto
next
  case (Suc n)
  show ?case
  proof (cases "within_tolerance tol (deviation error_limit cur)")
    case True
    with Suc.prems show ?thesis by auto
  next
    case False
    define lo' where
      "lo' = (if above_limit error_limit (cand_error cur) then lo else cand_distance cur)"
    define hi' where
      "hi' = (if above_limit error_limit (cand_error cur) then cand_distance cur else hi)"
    define d where "d = (lo' + hi') div 2"
    have lo': "1 \<le> lo'" and hi': "1 \<le> hi'"
      using Suc.prems by (simp_all add: lo'_def hi'_def)
    then have d: "1 \<le> d" by (simp add: d_def)
    show ?thesis
    proof (cases "hi' - lo' \<le> 1")
      case True
      with False Suc.prems show ?thesis
        by (auto simp: Let_def lo'_def[symmetric] hi'_def[symmetric])
    next
      case wide: False
      from d Suc.prems(1) obtain c where c: "evaluate X k d = Inr c"
        using evaluate_ok[of X k d] by auto
      then have cd: "cand_distance c = d" by (rule evaluate_Inr)
      define best' where
        "best' = (if nearer_limit (deviation error_limit c) (deviation error_limit best)
                  then c else best)"
      have b1: "evaluate X k (cand_distance best') = Inr best'"
        and b2: "1 \<le> cand_distance best'"
        using c cd d Suc.prems by (simp_all add: best'_def)
      have step: "search X k error_limit tol (Suc n) lo hi cur best
                  = search X k error_limit tol n lo' hi' c best'"
        using False wide c
        by (simp add: Let_def lo'_def[symmetric] hi'_def[symmetric] d_def[symmetric]
            best'_def[symmetric])
      from Suc.IH[OF Suc.prems(1) lo' hi' _ _ b1 b2, of c] c cd d
      show ?thesis unfolding step by simp
    qed
  qed
qed

lemma search_unconverged:
  assumes "search X k error_limit tol n lo hi cur best = Inr (c, False)"
    and "best = cur \<or> \<not> within_tolerance tol (deviation error_limit best)"
  shows "\<not> within_tolerance tol (deviation error_limit c)"
  using assms
proof (induction n arbitrary: lo hi cur best)
  case 0
  then show ?case by (auto split: if_splits)
next
  case (Suc n)
  from Suc.prems have nc: "\<not> within_tolerance tol (deviation error_limit cur)"
    by (auto split: if_splits)
  with Suc.prems(2) have nb: "\<not> within_tolerance tol (deviation error_limit best)" by auto
  define lo' where
    "lo' = (if above_limit error_limit (cand_error cur) then lo else cand_distance cur)"
  define hi' where
    "hi' = (if above_limit error_limit (cand_error cur) then cand_distance cur else hi)"
  define d where "d = (lo' + hi') div 2"
  show ?case
  proof (cases "hi' - lo' \<le> 1")
    case True
    with nc nb Suc.prems(1) show ?thesis
      by (auto simp: Let_def lo'_def[symmetric] hi'_def[symmetric])
  next
    case wide: False
    from Suc.prems(1) nc wide obtain e where e: "evaluate X k d = Inr e"
      by (cases "evaluate X k d")
         (auto simp: Let_def lo'_def[symmetric] hi'_def[symmetric] d_def[symmetric])
    define best' where
      "best' = (if nearer_limit (deviation error_limit e) (deviation error_limit best)
                then e else best)"
    have step: "search X k error_limit tol (Suc n) lo hi cur best
                = search X k error_limit tol n lo' hi' e best'"
      using nc wide e
      by (simp add: Let_def lo'_def[symmetric] hi'_def[symmetric] d_def[symmetric]
          best'_def[symmetric])
    have inv: "best' = e \<or> \<not> within_tolerance tol (deviation error_limit best')"
      using nb by (simp add: best'_def)
    from Suc.prems(1) have "search X k error_limit tol n lo' hi' e best' = Inr (c, False)"
      unfolding step .
    from Suc.IH[OF this inv] show ?thesis .
  qed
qed

lemma search_best:
  assumes "search X k error_limit tol n lo hi cur best = Inr (c, False)"
    and "X \<noteq> []" and "\<exists>e. cand_error best = Some e"
  shows "c \<in> set (best # tried X k error_limit tol n lo hi cur best)
       \<and> (\<exists>err. cand_error c = Some err
            \<and> (\<forall>c'\<in>set (best # tried X k error_limit tol n lo hi cur best).
                 \<exists>e'. cand_error c' = Some e'
                    \<and> \<bar>err - error_limit\<bar> \<le> \<bar>e' - error_limit\<bar>))"
  using assms
proof (induction n arbitrary: lo hi cur best)
  case 0
  then show ?case by (auto split: if_splits)
next
  case (Suc n)
  from Suc.prems have nc: "\<not> within_tolerance tol (deviation error_limit cur)"
    by (auto split: if_splits)
  from Suc.prems(3) obtain eb where eb: "cand_error best = Some eb" by blast
  define lo' where
    "lo' = (if above_limit error_limit (cand_error cur) then lo else cand_distance cur)"
  define hi' where
    "hi' = (if above_limit error_limit (cand_error cur) then cand_distance cur else hi)"
  define d where "d = (lo' + hi') div 2"
  show ?case
  proof (cases "hi' - lo' \<le> 1")
    case True
    with nc Suc.prems(1) eb show ?thesis
      by (auto simp: Let_def lo'_def[symmetric] hi'_def[symmetric])
  next
    case wide: False
    from Suc.prems(1) nc wide obtain e where e: "evaluate X k d = Inr e"
      by (cases "evaluate X k d")
         (auto simp: Let_def lo'_def[symmetric] hi'_def[symmetric] d_def[symmetric])
    from evaluate_error[OF e Suc.prems(2)] obtain ee where ee: "cand_error e = Some ee"
      by blast
    define best' where
      "best' = (if nearer_limit (deviation error_limit e) (deviation error_limit best)
                then e else best)"
    have step: "search X k error_limit tol (Suc n) lo hi cur best
                = search X k error_limit tol n lo' hi' e best'"
      using nc wide e
      by (simp add: Let_def lo'_def[symmetric] hi'_def[symmetric] d_def[symmetric]
          best'_def[symmetric])
    have tr: "tried X k error_limit tol (Suc n) lo hi cur best
              = e # tried X k error_limit tol n lo' hi' e best'"
      using nc wide e
      by (simp add: Let_def lo'_def[symmetric] hi'_def[symmetric] d_def[symmetric]
          best'_def[symmetric])
    have "\<exists>eb'. cand_error best' = Some eb'
        \<and> \<bar>eb' - error_limit\<bar> \<le> \<bar>eb - error_limit\<bar>
        \<and> \<bar>eb' - error_limit\<bar> \<le> \<bar>ee - error_limit\<bar>"
    proof (cases "\<bar>ee - error_limit\<bar> < \<bar>eb - error_limit\<bar>")
      case True
      then have "best' = e" using eb ee by (simp add: best'_def nearer_limit_def deviation_def)
      with True ee show ?thesis by simp
    next
      case False
      then have "best' = best"
        using eb ee by (simp add: best'_def nearer_limit_def deviation_def)
      with False eb show ?thesis by simp
    qed
    then obtain eb' where eb': "cand_error best' = Some eb'"
      and bb: "\<bar>eb' - error_limit\<bar> \<le> \<bar>eb - error_limit\<bar>"
        "\<bar>eb' - error_limit\<bar> \<le> \<bar>ee - error_limit\<bar>"
      by blast
    from Suc.prems(1) have "search X k error_limit tol n lo' hi' e best' = Inr (c, False)"
      unfolding step .
    from Suc.IH[OF this Suc.prems(2)] eb' obtain err where
      m: "c \<in> set (best' # tried X k error_limit tol n lo' hi' e best')"
      and err: "cand_error c = Some err"
      and le: "\<forall>c'\<in>set (best' # tried X k error_limit tol n lo' hi' e best').
                 \<exists>e'. cand_error c' = Some e' \<and> \<bar>err - error_limit\<bar> \<le> \<bar>e' - error_limit\<bar>"
      by blast
    have b: "best' = e \<or> best' = best" by (simp add: best'_def)
    from le eb' have "\<bar>err - error_limit\<bar> \<le> \<bar>eb' - error_limit\<bar>" by auto
    with bb have "\<bar>err - error_limit\<bar> \<le> \<bar>eb - error_limit\<bar>"
      "\<bar>err - error_limit\<bar> \<le> \<bar>ee - error_limit\<bar>" by simp_all
    with m le b err eb ee show ?thesis unfolding tr by auto
  qed
qed

text \<open>
  C9. The search never raises on non-convergence. When the trajectory and the heading
  have the same length, the first distance is positive and the error limit is positive,
  \<open>find_approximation\<close> returns: the approximation of the fixed-distance mode at the
  resolved (positive) distance, with the resolved parameters. Nothing is logged exactly
  when the error of this approximation is within the tolerance of the limit; otherwise
  the non-convergence warning is logged and the approximation returned is one of the
  candidates found, for a trajectory that is not empty the best of them, the one whose
  error is nearest to the limit. Mismatched lengths, a first distance that is not
  positive and an error limit that is not positive fail with a precondition error. The
  curvature computation, a parameter, returns one value for each heading.
\<close>

theorem find_approximation_never_raises:
  assumes "\<And>se sk e. length (curvature se sk e) = length e"
  shows "(length X = length e0_raw \<and> 0 < distance_first \<and> 0 < error_limit \<longrightarrow>
           (\<exists>a d log.
              find_approximation curvature tol height X e0_raw error_limit max_iterations
                distance_first window_e window_K
                = Inr ((a, d, height, window_e, window_K), log)
            \<and> 0 < d
            \<and> get_approximate X (curvature window_e window_K e0_raw) d = Inr a
            \<and> (log = [] \<or> log = [non_convergence_warning])
            \<and> (log = [] \<longleftrightarrow>
                 within_tolerance tol
                   (map_option (\<lambda>e. \<bar>e - error_limit\<bar>) (mse X (X_approx a))))
            \<and> (log \<noteq> [] \<longrightarrow>
                 a \<in> approx ` set (candidates_found curvature tol X e0_raw error_limit
                                      max_iterations distance_first window_e window_K))
            \<and> (log \<noteq> [] \<and> X \<noteq> [] \<longrightarrow>
                 (\<exists>err. mse X (X_approx a) = Some err
                    \<and> (\<forall>c\<in>set (candidates_found curvature tol X e0_raw error_limit
                                   max_iterations distance_first window_e window_K).
                          \<exists>e'. cand_error c = Some e'
                             \<and> \<bar>err - error_limit\<bar> \<le> \<bar>e' - error_limit\<bar>)))))
       \<and> (length X \<noteq> length e0_raw \<or> distance_first \<le> 0 \<or> error_limit \<le> 0 \<longrightarrow>
            find_approximation curvature tol height X e0_raw error_limit max_iterations
              distance_first window_e window_K = Inl PreconditionError)"
proof (intro conjI impI)
  assume "length X \<noteq> length e0_raw \<or> distance_first \<le> 0 \<or> error_limit \<le> 0"
  then show "find_approximation curvature tol height X e0_raw error_limit max_iterations
              distance_first window_e window_K = Inl PreconditionError"
    by (auto simp: find_approximation_def)
next
  assume pre: "length X = length e0_raw \<and> 0 < distance_first \<and> 0 < error_limit"
  let ?k = "curvature window_e window_K e0_raw"
  let ?found = "candidates_found curvature tol X e0_raw error_limit max_iterations
                  distance_first window_e window_K"
  from pre assms have len: "length X = length ?k" by simp
  from pre have d1: "1 \<le> distance_first" by simp
  from evaluate_ok[OF len, of distance_first] pre obtain first where
    first: "evaluate X ?k distance_first = Inr first" by auto
  then have fd: "cand_distance first = distance_first" by (rule evaluate_Inr)
  have hi: "1 \<le> max distance_first (int (length X))" using d1 by simp
  from search_returns[OF len _ hi, of 1 first first error_limit tol max_iterations]
    first fd d1
  obtain c converged where
    s: "search X ?k error_limit tol max_iterations 1 (max distance_first (int (length X)))
          first first = Inr (c, converged)"
    and c: "evaluate X ?k (cand_distance c) = Inr c" and cd: "1 \<le> cand_distance c"
    and conv: "converged \<longrightarrow> within_tolerance tol (deviation error_limit c)"
    by auto
  let ?log = "if converged then [] else [non_convergence_warning]"
  have r: "find_approximation curvature tol height X e0_raw error_limit max_iterations
             distance_first window_e window_K
           = Inr ((approx c, cand_distance c, height, window_e, window_K), ?log)"
    using pre first s by (simp add: find_approximation_def Let_def)
  have ce: "cand_error c = mse X (X_approx (approx c))"
    by (rule evaluate_Inr(3)[OF c])
  have dev: "deviation error_limit c
             = map_option (\<lambda>e. \<bar>e - error_limit\<bar>) (mse X (X_approx (approx c)))"
    by (simp add: deviation_def ce)
  have found: "?found = first # tried X ?k error_limit tol max_iterations 1
                 (max distance_first (int (length X))) first first"
    using first by (simp add: candidates_found_def Let_def)
  have unconv: "\<not> within_tolerance tol (deviation error_limit c)" if "\<not> converged"
  proof -
    from s that have "search X ?k error_limit tol max_iterations 1
        (max distance_first (int (length X))) first first = Inr (c, False)" by simp
    from search_unconverged[OF this] show ?thesis by simp
  qed
  have 1: "?log = [] \<longleftrightarrow>
      within_tolerance tol (map_option (\<lambda>e. \<bar>e - error_limit\<bar>) (mse X (X_approx (approx c))))"
    using conv unconv unfolding dev by auto
  have 2: "?log = [] \<or> ?log = [non_convergence_warning]" by simp
  have 3: "0 < cand_distance c" using cd by simp
  have 4: "?log \<noteq> [] \<longrightarrow> approx c \<in> approx ` set ?found"
  proof
    assume "?log \<noteq> []"
    then have "\<not> converged" by (simp split: if_splits)
    with s have f: "search X ?k error_limit tol max_iterations 1
        (max distance_first (int (length X))) first first = Inr (c, False)" by simp
    show "approx c \<in> approx ` set ?found"
    proof (cases "X = []")
      case True
      from evaluate_Inr(2)[OF c] evaluate_Inr(2)[OF first] True
      have "approx c = approx first" by (simp add: get_approximate_def approximate_def
            split: if_splits)
      then show ?thesis unfolding found by simp
    next
      case False
      from search_best[OF f False evaluate_error[OF first False]]
      show ?thesis unfolding found by blast
    qed
  qed
  have 5: "?log \<noteq> [] \<and> X \<noteq> [] \<longrightarrow>
        (\<exists>err. mse X (X_approx (approx c)) = Some err
           \<and> (\<forall>c'\<in>set ?found. \<exists>e'. cand_error c' = Some e'
                 \<and> \<bar>err - error_limit\<bar> \<le> \<bar>e' - error_limit\<bar>))"
  proof
    assume a: "?log \<noteq> [] \<and> X \<noteq> []"
    then have "\<not> converged" and ne: "X \<noteq> []" by (simp_all split: if_splits)
    with s have f: "search X ?k error_limit tol max_iterations 1
        (max distance_first (int (length X))) first first = Inr (c, False)" by simp
    from search_best[OF f ne evaluate_error[OF first ne]]
    show "\<exists>err. mse X (X_approx (approx c)) = Some err
           \<and> (\<forall>c'\<in>set ?found. \<exists>e'. cand_error c' = Some e'
                 \<and> \<bar>err - error_limit\<bar> \<le> \<bar>e' - error_limit\<bar>)"
      unfolding found ce[symmetric] by blast
  qed
  from r 1 2 3 4 5 evaluate_Inr(2)[OF c]
  show "\<exists>a d log.
              find_approximation curvature tol height X e0_raw error_limit max_iterations
                distance_first window_e window_K
                = Inr ((a, d, height, window_e, window_K), log)
            \<and> 0 < d
            \<and> get_approximate X (curvature window_e window_K e0_raw) d = Inr a
            \<and> (log = [] \<or> log = [non_convergence_warning])
            \<and> (log = [] \<longleftrightarrow>
                 within_tolerance tol
                   (map_option (\<lambda>e. \<bar>e - error_limit\<bar>) (mse X (X_approx a))))
            \<and> (log \<noteq> [] \<longrightarrow> a \<in> approx ` set ?found)
            \<and> (log \<noteq> [] \<and> X \<noteq> [] \<longrightarrow>
                 (\<exists>err. mse X (X_approx a) = Some err
                    \<and> (\<forall>c\<in>set ?found. \<exists>e'. cand_error c = Some e'
                             \<and> \<bar>err - error_limit\<bar> \<le> \<bar>e' - error_limit\<bar>)))"
    by blast
qed

subsection \<open>Examples\<close>

lemma wave_mse:
  "mse wave (X_approx (approximate wave [2])) = Some (6 / 7)"
  "mse wave (X_approx (approximate wave [2, 4])) = Some 0"
  by (simp_all add: mse_def approximate_def wave_def vertex_idxs_def interpolate_def upt_rec
      Let_def power2_eq_square)

lemma wave_summed_curvature: "summed_curvature a b wave_heading = wave_curvature"
  by (simp add: summed_curvature_def wave_heading_def wave_curvature_def)

lemma summed_curvature_length: "length (summed_curvature se sk e) = length e"
  by (simp add: summed_curvature_def)

lemma wave_evaluate:
  "evaluate wave wave_curvature 6 =
     Inr \<lparr>approx = approximate wave [2], cand_distance = 6, cand_error = Some (6 / 7)\<rparr>"
  "evaluate wave wave_curvature 3 =
     Inr \<lparr>approx = approximate wave [2], cand_distance = 3, cand_error = Some (6 / 7)\<rparr>"
  "evaluate wave wave_curvature 2 =
     Inr \<lparr>approx = approximate wave [2, 4], cand_distance = 2, cand_error = Some 0\<rparr>"
proof -
  have l: "length wave = length wave_curvature" by (simp add: wave_def wave_curvature_def)
  show "evaluate wave wave_curvature 6 =
     Inr \<lparr>approx = approximate wave [2], cand_distance = 6, cand_error = Some (6 / 7)\<rparr>"
    "evaluate wave wave_curvature 3 =
     Inr \<lparr>approx = approximate wave [2], cand_distance = 3, cand_error = Some (6 / 7)\<rparr>"
    "evaluate wave wave_curvature 2 =
     Inr \<lparr>approx = approximate wave [2, 4], cand_distance = 2, cand_error = Some 0\<rparr>"
    by (simp_all add: evaluate_ok[OF l] wave_peaks wave_mse)
qed

lemma two_iterations:
  "search X k error_limit tol 2 lo hi cur best
   = search X k error_limit tol (Suc (Suc 0)) lo hi cur best"
  "tried X k error_limit tol 2 lo hi cur best
   = tried X k error_limit tol (Suc (Suc 0)) lo hi cur best"
  by (simp_all only: numeral_2_eq_2)

lemma wave_heading_lengths: "length wave = 7" "length wave_heading = 7"
  by (simp_all add: wave_def wave_heading_def)

lemma wave_search_exhausted:
  "find_approximation summed_curvature (1 / 100) 50 wave wave_heading (1 / 4) 2 6 101 101
   = Inr ((approximate wave [2, 4], 2, 50, 101, 101), [non_convergence_warning])"
  by (simp add: two_iterations find_approximation_def wave_summed_curvature wave_evaluate wave_heading_lengths
      deviation_def within_tolerance_def above_limit_def nearer_limit_def Let_def)

lemma wave_candidates:
  "candidates_found summed_curvature (1 / 100) wave wave_heading (1 / 4) 2 6 101 101
   = [\<lparr>approx = approximate wave [2], cand_distance = 6, cand_error = Some (6 / 7)\<rparr>,
      \<lparr>approx = approximate wave [2], cand_distance = 3, cand_error = Some (6 / 7)\<rparr>,
      \<lparr>approx = approximate wave [2, 4], cand_distance = 2, cand_error = Some 0\<rparr>]"
  by (simp add: two_iterations candidates_found_def wave_summed_curvature wave_evaluate wave_heading_lengths
      deviation_def within_tolerance_def above_limit_def nearer_limit_def Let_def)

lemma wave_search_converged:
  "find_approximation summed_curvature (1 / 10) 50 wave wave_heading (1 / 10) 2 6 101 101
   = Inr ((approximate wave [2, 4], 2, 50, 101, 101), [])"
  by (simp add: two_iterations find_approximation_def wave_summed_curvature wave_evaluate wave_heading_lengths
      deviation_def within_tolerance_def above_limit_def nearer_limit_def Let_def)

lemma empty_search:
  "find_approximation summed_curvature (1 / 100) 50 [] [] (1 / 4) 2 6 101 101
   = Inr ((approximate [] [], 6, 50, 101, 101), [non_convergence_warning])"
  by (simp add: two_iterations find_approximation_def summed_curvature_def evaluate_def get_approximate_def
      find_peaks_def local_peaks_def mse_def approximate_def
      deviation_def within_tolerance_def above_limit_def nearer_limit_def Let_def)

theorem find_approximation_never_raises_witness:
  "(\<forall>se sk e. length (summed_curvature se sk e) = length e)
   \<and> length wave = length wave_heading \<and> (0 :: int) < 6 \<and> (0 :: real) < 1 / 4
   \<and> find_approximation summed_curvature (1 / 100) 50 wave wave_heading (1 / 4) 2 6 101 101
       = Inr ((approximate wave [2, 4], 2, 50, 101, 101), [non_convergence_warning])
   \<and> map cand_distance
        (candidates_found summed_curvature (1 / 100) wave wave_heading (1 / 4) 2 6 101 101)
       = [6, 3, 2]
   \<and> get_approximate wave wave_curvature 2 = Inr (approximate wave [2, 4])
   \<and> mse wave (X_approx (approximate wave [2, 4])) = Some 0
   \<and> within_tolerance (1 / 100)
        (map_option (\<lambda>e. \<bar>e - 1 / 4\<bar>) (mse wave (X_approx (approximate wave [2, 4]))))
       = False
   \<and> find_approximation summed_curvature (1 / 10) 50 wave wave_heading (1 / 10) 2 6 101 101
       = Inr ((approximate wave [2, 4], 2, 50, 101, 101), [])
   \<and> within_tolerance (1 / 10)
        (map_option (\<lambda>e. \<bar>e - 1 / 10\<bar>) (mse wave (X_approx (approximate wave [2, 4]))))
       = True
   \<and> find_approximation summed_curvature (1 / 100) 50 [] [] (1 / 4) 2 6 101 101
       = Inr ((approximate [] [], 6, 50, 101, 101), [non_convergence_warning])
   \<and> find_approximation summed_curvature (1 / 100) 50 wave wave_heading 0 2 6 101 101
       = Inl PreconditionError"
proof -
  have h: "\<And>se sk e. length (summed_curvature se sk e) = length e"
    by (rule summed_curvature_length)
  have l: "length wave = length wave_heading" by (simp add: wave_heading_lengths)
  note T = find_approximation_never_raises[of summed_curvature, OF h,
      where height = 50 and max_iterations = 2 and distance_first = 6 and window_e = 101
        and window_K = 101]
  from T[where X = wave and ?e0_raw = wave_heading and error_limit = "1 / 4"
      and tol = "1 / 100"] l
  obtain a d log where
    r: "find_approximation summed_curvature (1 / 100) 50 wave wave_heading (1 / 4) 2 6 101 101
        = Inr ((a, d, 50, 101, 101), log)"
    and g: "get_approximate wave (summed_curvature 101 101 wave_heading) d = Inr a"
    and w: "(log = []) = within_tolerance (1 / 100)
              (map_option (\<lambda>e. \<bar>e - 1 / 4\<bar>) (mse wave (X_approx a)))"
    and b: "log \<noteq> [] \<and> wave \<noteq> [] \<longrightarrow>
              (\<exists>err. mse wave (X_approx a) = Some err
                 \<and> (\<forall>c\<in>set (candidates_found summed_curvature (1 / 100) wave wave_heading
                                (1 / 4) 2 6 101 101).
                       \<exists>e'. cand_error c = Some e' \<and> \<bar>err - 1 / 4\<bar> \<le> \<bar>e' - 1 / 4\<bar>))"
    by auto
  from r have a: "a = approximate wave [2, 4]" and d: "d = 2"
    and log: "log = [non_convergence_warning]"
    by (simp_all add: wave_search_exhausted)
  have 1: "find_approximation summed_curvature (1 / 100) 50 wave wave_heading (1 / 4) 2 6
      101 101 = Inr ((approximate wave [2, 4], 2, 50, 101, 101), [non_convergence_warning])"
    using r unfolding a d log .
  have 2: "get_approximate wave wave_curvature 2 = Inr (approximate wave [2, 4])"
    using g unfolding a d wave_summed_curvature .
  have 3: "within_tolerance (1 / 100)
        (map_option (\<lambda>e. \<bar>e - 1 / 4\<bar>) (mse wave (X_approx (approximate wave [2, 4]))))
       = False"
    using w unfolding a log by simp
  have ne: "wave \<noteq> []" by (simp add: wave_def)
  from b ne obtain err where err: "mse wave (X_approx (approximate wave [2, 4])) = Some err"
    and best: "\<forall>c\<in>set (candidates_found summed_curvature (1 / 100) wave wave_heading
                         (1 / 4) 2 6 101 101).
                 \<exists>e'. cand_error c = Some e' \<and> \<bar>err - 1 / 4\<bar> \<le> \<bar>e' - 1 / 4\<bar>"
    unfolding a log by auto
  from best have "\<bar>err - 1 / 4\<bar> \<le> \<bar>0 - 1 / 4\<bar>" "\<bar>err - 1 / 4\<bar> \<le> \<bar>6 / 7 - 1 / 4\<bar>"
    by (simp_all add: wave_candidates)
  have 4: "mse wave (X_approx (approximate wave [2, 4])) = Some 0"
    by (rule wave_mse)
  have 5: "map cand_distance
        (candidates_found summed_curvature (1 / 100) wave wave_heading (1 / 4) 2 6 101 101)
       = [6, 3, 2]"
    by (simp add: wave_candidates)
  from T[where X = wave and ?e0_raw = wave_heading and error_limit = "1 / 10"
      and tol = "1 / 10"] l
  obtain a' d' log' where
    r': "find_approximation summed_curvature (1 / 10) 50 wave wave_heading (1 / 10) 2 6 101 101
        = Inr ((a', d', 50, 101, 101), log')"
    and w': "(log' = []) = within_tolerance (1 / 10)
              (map_option (\<lambda>e. \<bar>e - 1 / 10\<bar>) (mse wave (X_approx a')))"
    by auto
  from r' have a': "a' = approximate wave [2, 4]" and d': "d' = 2" and log': "log' = []"
    by (simp_all add: wave_search_converged)
  have 6: "find_approximation summed_curvature (1 / 10) 50 wave wave_heading (1 / 10) 2 6
      101 101 = Inr ((approximate wave [2, 4], 2, 50, 101, 101), [])"
    using r' unfolding a' d' log' .
  have 7: "within_tolerance (1 / 10)
        (map_option (\<lambda>e. \<bar>e - 1 / 10\<bar>) (mse wave (X_approx (approximate wave [2, 4]))))
       = True"
    using w' unfolding a' log' by simp
  from T[where X = "[]" and ?e0_raw = "[]" and error_limit = "1 / 4" and tol = "1 / 100"]
  obtain a'' d'' log'' where
    r'': "find_approximation summed_curvature (1 / 100) 50 [] [] (1 / 4) 2 6 101 101
        = Inr ((a'', d'', 50, 101, 101), log'')"
    by auto
  then have 8: "find_approximation summed_curvature (1 / 100) 50 [] [] (1 / 4) 2 6 101 101
       = Inr ((approximate [] [], 6, 50, 101, 101), [non_convergence_warning])"
    by (simp add: empty_search)
  from T[where X = wave and ?e0_raw = wave_heading and error_limit = 0 and tol = "1 / 100"]
  have 9: "find_approximation summed_curvature (1 / 100) 50 wave wave_heading 0 2 6 101 101
       = Inl PreconditionError"
    by simp
  have 0: "\<forall>se sk e. length (summed_curvature se sk e) = length e" using h by blast
  have p: "(0 :: int) < 6" "(0 :: real) < 1 / 4" by simp_all
  show ?thesis
    by (intro conjI) (rule 0 l p 1 2 3 4 5 6 7 8 9)+
qed

end
